theory Spec2Isabelle
  imports Complex_Main
begin

section \<open>Data model\<close>

text \<open>
  The services work on JavaScript numbers. They are modelled as real numbers: every
  finite value is itself and no rounding happens. The values that are not real numbers
  are written out where the code can produce them: \<open>undefined\<close> (a read past the end of
  an array, guarded by \<open>?.\<close>) is \<open>None\<close> of an option, a property read on \<open>undefined\<close>
  without \<open>?.\<close> is the error \<open>TypeError\<close>, and a quotient whose divisor can be zero
  (Infinity or NaN in JavaScript) is \<open>None\<close> as well.
  Periods are array lengths: natural numbers, positive at every call site.

  A field name that several interfaces share carries a prefix here (\<open>ti_\<close>, \<open>fvg_\<close>,
  \<open>ob_\<close>, \<open>lz_\<close>, \<open>es_\<close>); the candle's \<open>open\<close> is \<open>openPrice\<close>, the \<open>macd\<close> field of
  the analysis is \<open>macdResult\<close>, and \<open>stochastic.k\<close> and \<open>stochastic.d\<close> are
  \<open>stochasticK\<close> and \<open>stochasticD\<close>.
\<close>

record CandlestickData =
  timestamp :: string
  openPrice :: real
  high :: real
  low :: real
  close :: real
  volume :: real

text \<open>
  A point of an indicator series. Its value is a real number for every indicator of
  \<open>technicalAnalysis.ts\<close>; the ADX divides by averages that can be zero, so its points
  carry an optional value where \<open>None\<close> is NaN.
\<close>

record 'v IndicatorPoint =
  ti_timestamp :: string
  ti_value :: 'v

type_synonym TechnicalIndicator = "real IndicatorPoint"

datatype error = TypeError

record MACDResult =
  macd :: "TechnicalIndicator list"
  signal :: "TechnicalIndicator list"
  histogram :: "TechnicalIndicator list"

record BollingerResult =
  upper :: "TechnicalIndicator list"
  middle :: "TechnicalIndicator list"
  lower :: "TechnicalIndicator list"

record AnalysisResult =
  sma20 :: "TechnicalIndicator list"
  sma50 :: "TechnicalIndicator list"
  ema12 :: "TechnicalIndicator list"
  ema26 :: "TechnicalIndicator list"
  rsi :: "TechnicalIndicator list"
  macdResult :: MACDResult
  bollingerBands :: BollingerResult
  stochasticK :: "TechnicalIndicator list"
  stochasticD :: "TechnicalIndicator list"

subsection \<open>Array idioms\<close>

text \<open>\<open>xs.slice(s, e)\<close> for \<open>0 \<le> s\<close>: the elements at the indices \<open>s \<le> i < e\<close> that exist.\<close>

definition slice :: "nat \<Rightarrow> nat \<Rightarrow> 'a list \<Rightarrow> 'a list" where
  "slice s e xs = take (e - s) (drop s xs)"

text \<open>\<open>xs.slice(-n)\<close>: the last \<open>n\<close> elements, all of them when there are fewer.\<close>

definition lastN :: "nat \<Rightarrow> 'a list \<Rightarrow> 'a list" where
  "lastN n xs = drop (length xs - n) xs"

text \<open>\<open>xs.reduce((acc, x) => acc + f(x), 0)\<close>.\<close>

definition sumBy :: "('a \<Rightarrow> real) \<Rightarrow> 'a list \<Rightarrow> real" where
  "sumBy f xs = foldl (\<lambda>acc x. acc + f x) 0 xs"

text \<open>\<open>xs[xs.length - 1]?.value\<close> and \<open>xs[xs.length - 2]?.value\<close>.\<close>

definition latestValue :: "TechnicalIndicator list \<Rightarrow> real option" where
  "latestValue xs = (if xs = [] then None else Some (ti_value (last xs)))"

definition previousValue :: "TechnicalIndicator list \<Rightarrow> real option" where
  "previousValue xs =
     (if 2 \<le> length xs then Some (ti_value (xs ! (length xs - 2))) else None)"

text \<open>The truth value of a number that may be \<open>undefined\<close>: \<open>undefined\<close> and \<open>0\<close> are falsy.\<close>

definition truthy :: "real option \<Rightarrow> bool" where
  "truthy v = (case v of None \<Rightarrow> False | Some x \<Rightarrow> x \<noteq> 0)"

text \<open>\<open>a / b\<close> where \<open>b\<close> may be zero: \<open>None\<close> stands for the result that is no real number.\<close>

definition jsDiv :: "real \<Rightarrow> real \<Rightarrow> real option" where
  "jsDiv a b = (if b = 0 then None else Some (a / b))"

section \<open>Indicator library (technicalAnalysis.ts)\<close>

definition calculateSMA :: "CandlestickData list \<Rightarrow> nat \<Rightarrow> TechnicalIndicator list" where
  "calculateSMA data period =
     map (\<lambda>i. \<lparr>ti_timestamp = timestamp (data ! i),
               ti_value = sumBy close (slice (i + 1 - period) (i + 1) data) / real period\<rparr>)
         [period - 1 ..< length data]"

text \<open>The loop of \<open>calculateEMA\<close> over the candles from index \<open>period\<close> on.\<close>

fun emaLoop :: "real \<Rightarrow> real \<Rightarrow> CandlestickData list \<Rightarrow> TechnicalIndicator list" where
  "emaLoop multiplier ema [] = []"
| "emaLoop multiplier ema (c # cs) =
     (let ema' = (close c - ema) * multiplier + ema
      in \<lparr>ti_timestamp = timestamp c, ti_value = ema'\<rparr> # emaLoop multiplier ema' cs)"

text \<open>
  \<open>calculateEMA\<close> returns early on an empty array only. On any other array it reads
  \<open>data[period - 1].timestamp\<close>, which throws when that candle does not exist.
\<close>

definition calculateEMA :: "CandlestickData list \<Rightarrow> nat \<Rightarrow> error + TechnicalIndicator list" where
  "calculateEMA data period =
     (if data = [] then Inr []
      else if period = 0 \<or> length data \<le> period - 1 then Inl TypeError
      else
        (let multiplier = 2 / (real period + 1);
             ema = sumBy close (slice 0 period data) / real period
         in Inr (\<lparr>ti_timestamp = timestamp (data ! (period - 1)), ti_value = ema\<rparr>
                 # emaLoop multiplier ema (drop period data))))"

text \<open>The first loop of \<open>calculateRSI\<close>: one gain and one loss per adjacent pair of candles.\<close>

definition changes :: "CandlestickData list \<Rightarrow> real list" where
  "changes data = map (\<lambda>i. close (data ! i) - close (data ! (i - 1))) [1 ..< length data]"

definition gainsOf :: "CandlestickData list \<Rightarrow> real list" where
  "gainsOf data = map (\<lambda>change. if change > 0 then change else 0) (changes data)"

definition lossesOf :: "CandlestickData list \<Rightarrow> real list" where
  "lossesOf data = map (\<lambda>change. if change < 0 then \<bar>change\<bar> else 0) (changes data)"

text \<open>The mean of the window \<open>xs.slice(i - period + 1, i + 1)\<close>, divided by the period.\<close>

definition windowAvg :: "real list \<Rightarrow> nat \<Rightarrow> nat \<Rightarrow> real" where
  "windowAvg xs i period = sumBy (\<lambda>x. x) (slice (i + 1 - period) (i + 1) xs) / real period"

definition rsiOf :: "real \<Rightarrow> real \<Rightarrow> real" where
  "rsiOf avgGain avgLoss =
     (let rs = (if avgLoss = 0 then 100 else avgGain / avgLoss)
      in 100 - 100 / (1 + rs))"

definition calculateRSI :: "CandlestickData list \<Rightarrow> nat \<Rightarrow> TechnicalIndicator list" where
  "calculateRSI data period =
     (let gains = gainsOf data; losses = lossesOf data
      in map (\<lambda>i. \<lparr>ti_timestamp = timestamp (data ! (i + 1)),
                   ti_value = rsiOf (windowAvg gains i period) (windowAvg losses i period)\<rparr>)
             [period - 1 ..< length gains])"

text \<open>
  The MACD line: \<open>ema12[i + 12 - 1]?.value - ema26[i]?.value\<close> for \<open>i\<close> from
  \<open>Math.max(0, 26 - 12)\<close>; the difference is NaN, and the point is skipped, exactly
  when \<open>ema12[i + 11]\<close> does not exist.
\<close>

definition macdLineOf :: "TechnicalIndicator list \<Rightarrow> TechnicalIndicator list \<Rightarrow> TechnicalIndicator list" where
  "macdLineOf e12 e26 =
     concat (map (\<lambda>i. if i + 12 - 1 < length e12
                       then [\<lparr>ti_timestamp = ti_timestamp (e26 ! i),
                              ti_value = ti_value (e12 ! (i + 12 - 1)) - ti_value (e26 ! i)\<rparr>]
                       else [])
                 [max 0 (26 - 12) ..< min (length e12) (length e26)])"

fun signalLoop :: "real \<Rightarrow> real \<Rightarrow> TechnicalIndicator list \<Rightarrow> TechnicalIndicator list" where
  "signalLoop multiplier sig [] = []"
| "signalLoop multiplier sig (p # ps) =
     (let sig' = (ti_value p - sig) * multiplier + sig
      in \<lparr>ti_timestamp = ti_timestamp p, ti_value = sig'\<rparr> # signalLoop multiplier sig' ps)"

definition signalLineOf :: "TechnicalIndicator list \<Rightarrow> TechnicalIndicator list" where
  "signalLineOf macdLine =
     (if 9 \<le> length macdLine
      then (let sig = sumBy ti_value (slice 0 9 macdLine) / 9
            in \<lparr>ti_timestamp = ti_timestamp (macdLine ! 8), ti_value = sig\<rparr>
               # signalLoop (2 / 10) sig (drop 9 macdLine))
      else [])"

definition histogramOf :: "TechnicalIndicator list \<Rightarrow> TechnicalIndicator list \<Rightarrow> TechnicalIndicator list" where
  "histogramOf macdLine signalLine =
     map (\<lambda>i. \<lparr>ti_timestamp = ti_timestamp (macdLine ! (i + (length macdLine - length signalLine))),
               ti_value = ti_value (macdLine ! (i + (length macdLine - length signalLine)))
                          - ti_value (signalLine ! i)\<rparr>)
         [0 ..< min (length macdLine) (length signalLine)]"

definition calculateMACD :: "CandlestickData list \<Rightarrow> error + MACDResult" where
  "calculateMACD data =
     (case calculateEMA data 12 of
        Inl e \<Rightarrow> Inl e
      | Inr e12 \<Rightarrow>
          (case calculateEMA data 26 of
             Inl e \<Rightarrow> Inl e
           | Inr e26 \<Rightarrow>
               (let macdLine = macdLineOf e12 e26;
                    signalLine = signalLineOf macdLine
                in Inr \<lparr>macd = macdLine, signal = signalLine,
                        histogram = histogramOf macdLine signalLine\<rparr>)))"

text \<open>The three bands at the \<open>i\<close>-th point of the moving average.\<close>

definition bandDeviation :: "CandlestickData list \<Rightarrow> nat \<Rightarrow> TechnicalIndicator \<Rightarrow> nat \<Rightarrow> real" where
  "bandDeviation data period smaPoint i =
     (let dataIndex = i + period - 1;
          prices = map close (slice (dataIndex + 1 - period) (dataIndex + 1) data);
          mean = ti_value smaPoint;
          variance = sumBy (\<lambda>price. (price - mean) ^ 2) prices / real period
      in sqrt variance)"

definition calculateBollingerBands :: "CandlestickData list \<Rightarrow> nat \<Rightarrow> real \<Rightarrow> BollingerResult" where
  "calculateBollingerBands data period stdDev =
     (let sma = calculateSMA data period;
          idx = [0 ..< length sma]
      in \<lparr>upper = map (\<lambda>i. \<lparr>ti_timestamp = ti_timestamp (sma ! i),
                             ti_value = ti_value (sma ! i)
                                        + stdDev * bandDeviation data period (sma ! i) i\<rparr>) idx,
          middle = map (\<lambda>i. sma ! i) idx,
          lower = map (\<lambda>i. \<lparr>ti_timestamp = ti_timestamp (sma ! i),
                             ti_value = ti_value (sma ! i)
                                        - stdDev * bandDeviation data period (sma ! i) i\<rparr>) idx\<rparr>)"

text \<open>
  \<open>analyzeAll\<close> with the default periods (RSI 14, Bollinger 20 and 2). The fields are
  computed in the order of the object literal; the first call that throws ends it.
\<close>

definition analyzeAll :: "CandlestickData list \<Rightarrow> error + AnalysisResult" where
  "analyzeAll data =
     (case calculateEMA data 12 of
        Inl e \<Rightarrow> Inl e
      | Inr e12 \<Rightarrow>
          (case calculateEMA data 26 of
             Inl e \<Rightarrow> Inl e
           | Inr e26 \<Rightarrow>
               (case calculateMACD data of
                  Inl e \<Rightarrow> Inl e
                | Inr m \<Rightarrow>
                    Inr \<lparr>sma20 = calculateSMA data 20,
                         sma50 = calculateSMA data 50,
                         ema12 = e12,
                         ema26 = e26,
                         rsi = calculateRSI data 14,
                         macdResult = m,
                         bollingerBands = calculateBollingerBands data 20 2,
                         stochasticK = [],
                         stochasticD = []\<rparr>)))"

section \<open>Advanced indicators (advancedTechnicalAnalysis.ts)\<close>

definition trueRange :: "CandlestickData list \<Rightarrow> nat \<Rightarrow> real" where
  "trueRange data i =
     (let tr1 = high (data ! i) - low (data ! i);
          tr2 = \<bar>high (data ! i) - close (data ! (i - 1))\<bar>;
          tr3 = \<bar>low (data ! i) - close (data ! (i - 1))\<bar>
      in max (max tr1 tr2) tr3)"

definition plusDM :: "CandlestickData list \<Rightarrow> nat \<Rightarrow> real" where
  "plusDM data i =
     (let up = high (data ! i) - high (data ! (i - 1));
          down = low (data ! (i - 1)) - low (data ! i)
      in if up > down then max up 0 else 0)"

definition minusDM :: "CandlestickData list \<Rightarrow> nat \<Rightarrow> real" where
  "minusDM data i =
     (let up = high (data ! i) - high (data ! (i - 1));
          down = low (data ! (i - 1)) - low (data ! i)
      in if down > up then max down 0 else 0)"

definition trueRanges :: "CandlestickData list \<Rightarrow> real list" where
  "trueRanges data = map (trueRange data) [1 ..< length data]"

text \<open>
  \<open>dx = |plusDI - minusDI| / (plusDI + minusDI) * 100\<close>. The directional movements are
  not negative, so a zero \<open>avgTR\<close> makes both indices Infinity or NaN and \<open>dx\<close> NaN, and
  a zero sum of the indices makes \<open>dx\<close> the quotient 0/0: \<open>None\<close> is NaN here.
\<close>

definition dxOf :: "real \<Rightarrow> real \<Rightarrow> real \<Rightarrow> real option" where
  "dxOf avgTR avgPlusDM avgMinusDM =
     (case jsDiv avgPlusDM avgTR of
        None \<Rightarrow> None
      | Some p \<Rightarrow>
          (case jsDiv avgMinusDM avgTR of
             None \<Rightarrow> None
           | Some m \<Rightarrow>
               (let plusDI = p * 100; minusDI = m * 100
                in map_option (\<lambda>q. q * 100) (jsDiv \<bar>plusDI - minusDI\<bar> (plusDI + minusDI)))))"

text \<open>The mean of values of which any may be NaN.\<close>

definition meanOpt :: "real option list \<Rightarrow> real option" where
  "meanOpt vs =
     (if list_all (\<lambda>v. v \<noteq> None) vs
      then Some (sumBy the vs / real (length vs))
      else None)"

definition adxStep ::
  "CandlestickData list \<Rightarrow> nat \<Rightarrow> (real option) IndicatorPoint list \<Rightarrow> nat
   \<Rightarrow> (real option) IndicatorPoint list" where
  "adxStep data period result i =
     (let avgTR = windowAvg (trueRanges data) i period;
          avgPlusDM = windowAvg (map (plusDM data) [1 ..< length data]) i period;
          avgMinusDM = windowAvg (map (minusDM data) [1 ..< length data]) i period;
          dx = dxOf avgTR avgPlusDM avgMinusDM
      in if i \<ge> period * 2 - 2
         then (let startIdx = length result + 1 - period;
                   adxValues = map ti_value (drop startIdx result) @ [dx]
               in result @ [\<lparr>ti_timestamp = timestamp (data ! (i + 1)),
                              ti_value = meanOpt adxValues\<rparr>])
         else result @ [\<lparr>ti_timestamp = timestamp (data ! (i + 1)), ti_value = dx\<rparr>])"

definition calculateADX :: "CandlestickData list \<Rightarrow> nat \<Rightarrow> (real option) IndicatorPoint list" where
  "calculateADX data period =
     foldl (adxStep data period) [] [period - 1 ..< length (trueRanges data)]"

text \<open>
  \<open>calculateATR\<close> pushes one true range per iteration and averages
  \<open>trueRanges.slice(i - period, i)\<close> of the array as it is then (\<open>i\<close> elements).
\<close>

definition calculateATR :: "CandlestickData list \<Rightarrow> nat \<Rightarrow> TechnicalIndicator list" where
  "calculateATR data period =
     map (\<lambda>i. \<lparr>ti_timestamp = timestamp (data ! i),
               ti_value = sumBy (\<lambda>x. x) (slice (i - period) i (take i (trueRanges data)))
                          / real period\<rparr>)
         (filter (\<lambda>i. i \<ge> period) [1 ..< length data])"

datatype MarketRegime = Trending | Ranging

text \<open>The fields of \<open>AdvancedAnalysisResult\<close> that the strategy reads or passes on.\<close>

record AdvancedAnalysisResult =
  adx :: "(real option) IndicatorPoint list"
  atr :: "TechnicalIndicator list"
  marketRegime :: MarketRegime
  sessionFilter :: bool

section \<open>Structure detector (enhancedTradingStrategy.ts)\<close>

datatype FVGType = FvgBullish | FvgBearish
datatype OrderBlockType = Demand | Supply
datatype LiquidityType = BuyLiquidity | SellLiquidity
datatype VolumeProfile = VolHigh | VolMedium | VolLow
datatype Microstructure = MicroBullish | MicroBearish | MicroNeutral

record FairValueGap =
  fvg_type :: FVGType
  fvg_high :: real
  fvg_low :: real
  fvg_index :: nat
  filled :: bool
  fvg_strength :: "real option"

record OrderBlock =
  ob_type :: OrderBlockType
  ob_high :: real
  ob_low :: real
  ob_volume :: real
  ob_index :: nat
  tested :: bool
  ob_strength :: "real option"

record LiquidityZone =
  lz_type :: LiquidityType
  lz_price :: real
  lz_strength :: "real option"
  lz_index :: nat
  swept :: bool

record EnhancedStrategyConfig =
  riskPercentage :: real
  atrMultiplierSL :: real
  atrMultiplierTP :: real
  minConfidence :: real
  minADX :: real
  maxSpread :: real
  useTrailingStop :: bool
  fvgMinSize :: real
  orderBlockMinVolume :: real
  liquidityThreshold :: real

definition defaultConfig :: EnhancedStrategyConfig where
  "defaultConfig =
     \<lparr>riskPercentage = 1, atrMultiplierSL = 12 / 10, atrMultiplierTP = 2,
      minConfidence = 65, minADX = 10, maxSpread = 3, useTrailingStop = True,
      fvgMinSize = 2 / 10000, orderBlockMinVolume = 12 / 10, liquidityThreshold = 6 / 10\<rparr>"

subsection \<open>Fair value gaps\<close>

text \<open>The body of the detection loop at index \<open>i\<close>: up to two gaps, bullish first.\<close>

definition gapsAt :: "EnhancedStrategyConfig \<Rightarrow> CandlestickData list \<Rightarrow> nat \<Rightarrow> FairValueGap list" where
  "gapsAt cfg data i =
     (let prev = data ! (i - 1); next = data ! (i + 1)
      in (if low prev > high next \<and> low prev - high next \<ge> fvgMinSize cfg
          then [\<lparr>fvg_type = FvgBullish, fvg_high = low prev, fvg_low = high next,
                 fvg_index = i, filled = False,
                 fvg_strength = map_option (\<lambda>q. q * 10000)
                                  (jsDiv (low prev - high next) (close prev))\<rparr>]
          else [])
         @ (if high prev < low next \<and> low next - high prev \<ge> fvgMinSize cfg
            then [\<lparr>fvg_type = FvgBearish, fvg_high = low next, fvg_low = high prev,
                   fvg_index = i, filled = False,
                   fvg_strength = map_option (\<lambda>q. q * 10000)
                                    (jsDiv (low next - high prev) (close prev))\<rparr>]
            else []))"

text \<open>The inner loop of the fill check, over the candles \<open>data[j]\<close> for \<open>j > gap.index\<close>.\<close>

fun fillScan :: "FairValueGap \<Rightarrow> CandlestickData list \<Rightarrow> bool" where
  "fillScan gap [] = False"
| "fillScan gap (c # cs) =
     (if fvg_type gap = FvgBullish \<and> low c \<le> fvg_low gap then True
      else if fvg_type gap = FvgBearish \<and> high c \<ge> fvg_high gap then True
      else fillScan gap cs)"

definition markFilled :: "CandlestickData list \<Rightarrow> FairValueGap \<Rightarrow> FairValueGap" where
  "markFilled data gap =
     (if fillScan gap (drop (fvg_index gap + 1) data) then gap\<lparr>filled := True\<rparr> else gap)"

text \<open>All gaps of the sequence, before the cut to the last eight.\<close>

definition detectFairValueGaps :: "EnhancedStrategyConfig \<Rightarrow> CandlestickData list \<Rightarrow> FairValueGap list" where
  "detectFairValueGaps cfg data =
     map (markFilled data) (concat (map (gapsAt cfg data) [2 ..< length data - 1]))"

definition identifyFairValueGaps :: "EnhancedStrategyConfig \<Rightarrow> CandlestickData list \<Rightarrow> FairValueGap list" where
  "identifyFairValueGaps cfg data = lastN 8 (detectFairValueGaps cfg data)"

subsection \<open>Order blocks\<close>

text \<open>\<open>c.volume || 1\<close>.\<close>

definition volumeOr1 :: "CandlestickData \<Rightarrow> real" where
  "volumeOr1 c = (if volume c = 0 then 1 else volume c)"

definition avgVolumeBefore :: "CandlestickData list \<Rightarrow> nat \<Rightarrow> real" where
  "avgVolumeBefore data i = sumBy volumeOr1 (slice (max 0 (i - 5)) i data) / 5"

fun testedDemand :: "CandlestickData \<Rightarrow> CandlestickData list \<Rightarrow> bool" where
  "testedDemand candle [] = False"
| "testedDemand candle (c # cs) =
     (if low c \<le> high candle \<and> low c \<ge> low candle then True else testedDemand candle cs)"

fun testedSupply :: "CandlestickData \<Rightarrow> CandlestickData list \<Rightarrow> bool" where
  "testedSupply candle [] = False"
| "testedSupply candle (c # cs) =
     (if high c \<ge> low candle \<and> high c \<le> high candle then True else testedSupply candle cs)"

text \<open>\<open>(volume / avgVolume) * (bodySize / candleRange)\<close>, no real number when a divisor is zero.\<close>

definition blockStrength :: "real \<Rightarrow> real \<Rightarrow> real \<Rightarrow> real \<Rightarrow> real option" where
  "blockStrength vol avgVolume bodySize candleRange =
     (case jsDiv vol avgVolume of
        None \<Rightarrow> None
      | Some a \<Rightarrow> map_option (\<lambda>b. a * b) (jsDiv bodySize candleRange))"

definition blocksAt :: "EnhancedStrategyConfig \<Rightarrow> CandlestickData list \<Rightarrow> nat \<Rightarrow> OrderBlock list" where
  "blocksAt cfg data i =
     (let candle = data ! i;
          vol = volumeOr1 candle;
          avgVolume = avgVolumeBefore data i
      in if vol > avgVolume * orderBlockMinVolume cfg
         then (let bodySize = \<bar>close candle - openPrice candle\<bar>;
                   candleRange = high candle - low candle
               in (if close candle > openPrice candle \<and> bodySize > candleRange * (5 / 10)
                   then [\<lparr>ob_type = Demand, ob_high = high candle, ob_low = low candle,
                          ob_volume = vol, ob_index = i,
                          tested = testedDemand candle (drop (i + 1) data),
                          ob_strength = blockStrength vol avgVolume bodySize candleRange\<rparr>]
                   else [])
                  @ (if close candle < openPrice candle \<and> bodySize > candleRange * (5 / 10)
                     then [\<lparr>ob_type = Supply, ob_high = high candle, ob_low = low candle,
                            ob_volume = vol, ob_index = i,
                            tested = testedSupply candle (drop (i + 1) data),
                            ob_strength = blockStrength vol avgVolume bodySize candleRange\<rparr>]
                     else []))
         else [])"

definition detectOrderBlocks :: "EnhancedStrategyConfig \<Rightarrow> CandlestickData list \<Rightarrow> OrderBlock list" where
  "detectOrderBlocks cfg data = concat (map (blocksAt cfg data) [3 ..< length data - 3])"

definition identifyOrderBlocks :: "EnhancedStrategyConfig \<Rightarrow> CandlestickData list \<Rightarrow> OrderBlock list" where
  "identifyOrderBlocks cfg data = lastN 6 (detectOrderBlocks cfg data)"

subsection \<open>Liquidity zones\<close>

datatype Extreme = ExtremeHigh | ExtremeLow

text \<open>The touch-count loop of \<open>calculateLiquidityStrength\<close>, one step per index.\<close>

definition touches :: "CandlestickData list \<Rightarrow> nat \<Rightarrow> Extreme \<Rightarrow> real \<Rightarrow> nat \<Rightarrow> bool" where
  "touches data index ty targetPrice i =
     (i \<noteq> index \<and>
      (let tolerance = targetPrice * (2 / 10000)
       in if ty = ExtremeHigh \<and> \<bar>high (data ! i) - targetPrice\<bar> \<le> tolerance then True
          else if ty = ExtremeLow \<and> \<bar>low (data ! i) - targetPrice\<bar> \<le> tolerance then True
          else False))"

definition calculateLiquidityStrength :: "CandlestickData list \<Rightarrow> nat \<Rightarrow> Extreme \<Rightarrow> real option" where
  "calculateLiquidityStrength data index ty =
     (let candle = data ! index;
          vol = volumeOr1 candle;
          avgVolume = avgVolumeBefore data index;
          targetPrice = (if ty = ExtremeHigh then high candle else low candle);
          touchCount = length (filter (touches data index ty targetPrice)
                                 [max 0 (index - 10) ..< min (length data) (index + 10)])
      in map_option (\<lambda>q. q + real touchCount * (3 / 10)) (jsDiv vol avgVolume))"

fun sweptHigh :: "CandlestickData \<Rightarrow> CandlestickData list \<Rightarrow> bool" where
  "sweptHigh candle [] = False"
| "sweptHigh candle (c # cs) = (if high c > high candle then True else sweptHigh candle cs)"

fun sweptLow :: "CandlestickData \<Rightarrow> CandlestickData list \<Rightarrow> bool" where
  "sweptLow candle [] = False"
| "sweptLow candle (c # cs) = (if low c < low candle then True else sweptLow candle cs)"

definition zonesAt :: "CandlestickData list \<Rightarrow> nat \<Rightarrow> LiquidityZone list" where
  "zonesAt data i =
     (let candle = data ! i;
          leftCandles = slice (i - 3) i data;
          rightCandles = slice (i + 1) (i + 4) data;
          isSwingHigh = (list_all (\<lambda>c. high c < high candle) leftCandles
                         \<and> list_all (\<lambda>c. high c < high candle) rightCandles);
          isSwingLow = (list_all (\<lambda>c. low c > low candle) leftCandles
                        \<and> list_all (\<lambda>c. low c > low candle) rightCandles)
      in (if isSwingHigh
          then [\<lparr>lz_type = SellLiquidity, lz_price = high candle,
                 lz_strength = calculateLiquidityStrength data i ExtremeHigh,
                 lz_index = i, swept = sweptHigh candle (drop (i + 1) data)\<rparr>]
          else [])
         @ (if isSwingLow
            then [\<lparr>lz_type = BuyLiquidity, lz_price = low candle,
                   lz_strength = calculateLiquidityStrength data i ExtremeLow,
                   lz_index = i, swept = sweptLow candle (drop (i + 1) data)\<rparr>]
            else []))"

definition detectLiquidityZones :: "CandlestickData list \<Rightarrow> LiquidityZone list" where
  "detectLiquidityZones data = concat (map (zonesAt data) [3 ..< length data - 3])"

definition identifyLiquidityZones :: "CandlestickData list \<Rightarrow> LiquidityZone list" where
  "identifyLiquidityZones data = lastN 8 (detectLiquidityZones data)"

subsection \<open>Volume profile and microstructure\<close>

text \<open>
  On an empty array the mean is 0/0, NaN, and both comparisons with it are false.
\<close>

definition analyzeVolumeProfile :: "CandlestickData list \<Rightarrow> VolumeProfile" where
  "analyzeVolumeProfile data =
     (let recentData = lastN 10 data
      in if recentData = [] then VolLow
         else (let currentVolume = volumeOr1 (last recentData);
                   avgVolume = sumBy volumeOr1 recentData / real (length recentData)
               in if currentVolume > avgVolume * (13 / 10) then VolHigh
                  else if currentVolume > avgVolume * (7 / 10) then VolMedium
                  else VolLow))"

definition countHigherHighs :: "CandlestickData list \<Rightarrow> nat" where
  "countHigherHighs data =
     length (filter (\<lambda>i. high (data ! i) > high (data ! (i - 1))) [1 ..< length data])"

definition countLowerLows :: "CandlestickData list \<Rightarrow> nat" where
  "countLowerLows data =
     length (filter (\<lambda>i. low (data ! i) < low (data ! (i - 1))) [1 ..< length data])"

definition analyzeMarketMicrostructure ::
  "CandlestickData list \<Rightarrow> FairValueGap list \<Rightarrow> OrderBlock list \<Rightarrow> error + Microstructure" where
  "analyzeMarketMicrostructure data fvgs orderBlocks =
     (if data = [] then Inl TypeError
      else
        (let recentData = lastN 5 data;
             currentPrice = close (last data);
             higherHighs = countHigherHighs recentData;
             lowerLows = countLowerLows recentData;
             bullish0 = (if higherHighs > lowerLows then 1 else 0);
             bearish0 = (if higherHighs > lowerLows then 0
                         else if lowerLows > higherHighs then 1 else 0);
             bullishFVGs = length (filter (\<lambda>g. fvg_type g = FvgBullish \<and> \<not> filled g
                                                \<and> currentPrice > fvg_low g) fvgs);
             bearishFVGs = length (filter (\<lambda>g. fvg_type g = FvgBearish \<and> \<not> filled g
                                                \<and> currentPrice < fvg_high g) fvgs);
             demandBlocks = length (filter (\<lambda>b. ob_type b = Demand \<and> \<not> tested b
                                                 \<and> currentPrice > ob_low b) orderBlocks);
             supplyBlocks = length (filter (\<lambda>b. ob_type b = Supply \<and> \<not> tested b
                                                 \<and> currentPrice < ob_high b) orderBlocks);
             bullishSignals = bullish0 + bullishFVGs + demandBlocks;
             bearishSignals = bearish0 + bearishFVGs + supplyBlocks
         in if bullishSignals > bearishSignals then Inr MicroBullish
            else if bearishSignals > bullishSignals then Inr MicroBearish
            else Inr MicroNeutral))"

section \<open>Confluence engines\<close>

text \<open>
  A reason is the message pushed to the reason list; a number printed in the message
  with \<open>toFixed(1)\<close> is kept as the number.
\<close>

datatype reason =
    PriceAboveSMA | PriceBelowSMA | EMA12AboveEMA26 | EMA12BelowEMA26
  | RSIOversoldAt real | RSIOverboughtAt real | RSIBullishMomentum | RSIBearishMomentum
  | MACDBullishCrossover | MACDBearishCrossover
  | PriceAtLowerBand | PriceAtUpperBand | PriceAboveBBMiddle | PriceBelowBBMiddle
  | RSIOversold real | RSIOverbought real | RSIBullish real | RSIBearish real
  | MACDAboveZero | MACDBelowZero | BullishEMATrend | BearishEMATrend
  | NearBullishFVG "real option" | NearBearishFVG "real option"
  | NearDemandBlock "real option" | NearSupplyBlock "real option"
  | BullishMarketStructure | BearishMarketStructure
  | HighVolumeConfirmation | OutsideMajorSessions | ActiveTradingSession

record BasicSignals =
  bullish :: nat
  bearish :: nat
  reasons :: "reason list"

record Signals = BasicSignals +
  confluenceScore :: int

record ConfluenceResult = Signals +
  confidence :: real

subsection \<open>The basic strategy (tradingStrategy.ts)\<close>

definition voteBullish :: "nat \<Rightarrow> reason \<Rightarrow> BasicSignals \<Rightarrow> BasicSignals" where
  "voteBullish n r s = s\<lparr>bullish := bullish s + n, reasons := reasons s @ [r]\<rparr>"

definition voteBearish :: "nat \<Rightarrow> reason \<Rightarrow> BasicSignals \<Rightarrow> BasicSignals" where
  "voteBearish n r s = s\<lparr>bearish := bearish s + n, reasons := reasons s @ [r]\<rparr>"

definition smaRule :: "real option \<Rightarrow> real option \<Rightarrow> real \<Rightarrow> BasicSignals \<Rightarrow> BasicSignals" where
  "smaRule s20 s50 currentPrice s =
     (if truthy s20 \<and> truthy s50
      then (if the s20 > the s50 \<and> currentPrice > the s20 then voteBullish 2 PriceAboveSMA s
            else if the s20 < the s50 \<and> currentPrice < the s20 then voteBearish 2 PriceBelowSMA s
            else s)
      else s)"

definition emaRule :: "real option \<Rightarrow> real option \<Rightarrow> BasicSignals \<Rightarrow> BasicSignals" where
  "emaRule e12 e26 s =
     (if truthy e12 \<and> truthy e26
      then (if the e12 > the e26 then voteBullish 1 EMA12AboveEMA26 s
            else voteBearish 1 EMA12BelowEMA26 s)
      else s)"

definition rsiRule :: "real option \<Rightarrow> BasicSignals \<Rightarrow> BasicSignals" where
  "rsiRule r s =
     (if truthy r
      then (if the r < 30 then voteBullish 2 (RSIOversoldAt (the r)) s
            else if the r > 70 then voteBearish 2 (RSIOverboughtAt (the r)) s
            else if the r < 45 then voteBullish 1 RSIBullishMomentum s
            else if the r > 55 then voteBearish 1 RSIBearishMomentum s
            else s)
      else s)"

definition macdRule :: "real option \<Rightarrow> real option \<Rightarrow> real option \<Rightarrow> BasicSignals \<Rightarrow> BasicSignals" where
  "macdRule m msig mhist s =
     (if truthy m \<and> truthy msig \<and> truthy mhist
      then (if the m > the msig \<and> the mhist > 0 then voteBullish 1 MACDBullishCrossover s
            else if the m < the msig \<and> the mhist < 0 then voteBearish 1 MACDBearishCrossover s
            else s)
      else s)"

definition bollingerRule ::
  "real option \<Rightarrow> real option \<Rightarrow> real option \<Rightarrow> real \<Rightarrow> BasicSignals \<Rightarrow> BasicSignals" where
  "bollingerRule bbUpper bbLower bbMiddle currentPrice s =
     (if truthy bbUpper \<and> truthy bbLower \<and> truthy bbMiddle
      then (if currentPrice \<le> the bbLower then voteBullish 2 PriceAtLowerBand s
            else if currentPrice \<ge> the bbUpper then voteBearish 2 PriceAtUpperBand s
            else if currentPrice > the bbMiddle then voteBullish 1 PriceAboveBBMiddle s
            else voteBearish 1 PriceBelowBBMiddle s)
      else s)"

definition analyzeIndicators :: "AnalysisResult \<Rightarrow> real \<Rightarrow> BasicSignals" where
  "analyzeIndicators analysis currentPrice =
     bollingerRule (latestValue (upper (bollingerBands analysis)))
                   (latestValue (lower (bollingerBands analysis)))
                   (latestValue (middle (bollingerBands analysis))) currentPrice
       (macdRule (latestValue (macd (macdResult analysis)))
                 (latestValue (signal (macdResult analysis)))
                 (latestValue (histogram (macdResult analysis)))
          (rsiRule (latestValue (rsi analysis))
             (emaRule (latestValue (ema12 analysis)) (latestValue (ema26 analysis))
                (smaRule (latestValue (sma20 analysis)) (latestValue (sma50 analysis)) currentPrice
                   \<lparr>bullish = 0, bearish = 0, reasons = []\<rparr>))))"

definition calculateConfidence :: "BasicSignals \<Rightarrow> real" where
  "calculateConfidence signals =
     (let totalSignals = bullish signals + bearish signals
      in if totalSignals = 0 then 0
         else (let strongerSignal = max (bullish signals) (bearish signals);
                   conf = (real strongerSignal / real totalSignals) * 100;
                   indicatorCount = length (reasons signals);
                   confidenceBoost = min (real indicatorCount * 5) 20
               in min (conf + confidenceBoost) 100))"

subsection \<open>The enhanced strategy (enhancedTradingStrategy.ts)\<close>

text \<open>A rule that fires adds its weight to one tally and to the confluence score.\<close>

definition addBullish :: "nat \<Rightarrow> reason \<Rightarrow> Signals \<Rightarrow> Signals" where
  "addBullish n r s =
     s\<lparr>bullish := bullish s + n, confluenceScore := confluenceScore s + int n,
       reasons := reasons s @ [r]\<rparr>"

definition addBearish :: "nat \<Rightarrow> reason \<Rightarrow> Signals \<Rightarrow> Signals" where
  "addBearish n r s =
     s\<lparr>bearish := bearish s + n, confluenceScore := confluenceScore s + int n,
       reasons := reasons s @ [r]\<rparr>"

definition addScore :: "int \<Rightarrow> reason \<Rightarrow> Signals \<Rightarrow> Signals" where
  "addScore n r s = s\<lparr>confluenceScore := confluenceScore s + n, reasons := reasons s @ [r]\<rparr>"

definition rsiConfluence :: "real option \<Rightarrow> Signals \<Rightarrow> Signals" where
  "rsiConfluence r s =
     (if truthy r
      then (if the r < 30 then addBullish 4 (RSIOversold (the r)) s
            else if the r > 70 then addBearish 4 (RSIOverbought (the r)) s
            else if the r < 40 then addBullish 2 (RSIBullish (the r)) s
            else if the r > 60 then addBearish 2 (RSIBearish (the r)) s
            else s)
      else s)"

definition macdConfluence :: "real option \<Rightarrow> real option \<Rightarrow> Signals \<Rightarrow> Signals" where
  "macdConfluence macdHist prevMACDHist s =
     (if truthy macdHist \<and> truthy prevMACDHist
      then (if the prevMACDHist \<le> 0 \<and> the macdHist > 0 then addBullish 5 MACDBullishCrossover s
            else if the prevMACDHist \<ge> 0 \<and> the macdHist < 0 then addBearish 5 MACDBearishCrossover s
            else if the macdHist > 0 then addBullish 2 MACDAboveZero s
            else if the macdHist < 0 then addBearish 2 MACDBelowZero s
            else s)
      else s)"

definition emaConfluence :: "real option \<Rightarrow> real option \<Rightarrow> real \<Rightarrow> Signals \<Rightarrow> Signals" where
  "emaConfluence e12 e26 currentPrice s =
     (if truthy e12 \<and> truthy e26
      then (if the e12 > the e26 \<and> currentPrice > the e12 then addBullish 3 BullishEMATrend s
            else if the e12 < the e26 \<and> currentPrice < the e12 then addBearish 3 BearishEMATrend s
            else s)
      else s)"

definition nearGap :: "FVGType \<Rightarrow> real \<Rightarrow> FairValueGap \<Rightarrow> bool" where
  "nearGap ty currentPrice g =
     (fvg_type g = ty \<and> \<not> filled g
      \<and> currentPrice \<ge> fvg_low g * (998 / 1000) \<and> currentPrice \<le> fvg_high g * (1002 / 1000))"

definition fvgConfluence :: "FairValueGap list \<Rightarrow> real \<Rightarrow> Signals \<Rightarrow> Signals" where
  "fvgConfluence fvgs currentPrice s =
     (let s1 = (case find (nearGap FvgBullish currentPrice) fvgs of
                  Some g \<Rightarrow> addBullish 3 (NearBullishFVG (fvg_strength g)) s
                | None \<Rightarrow> s)
      in case find (nearGap FvgBearish currentPrice) fvgs of
           Some g \<Rightarrow> addBearish 3 (NearBearishFVG (fvg_strength g)) s1
         | None \<Rightarrow> s1)"

definition nearBlock :: "OrderBlockType \<Rightarrow> real \<Rightarrow> OrderBlock \<Rightarrow> bool" where
  "nearBlock ty currentPrice b =
     (ob_type b = ty \<and> \<not> tested b
      \<and> currentPrice \<ge> ob_low b * (998 / 1000) \<and> currentPrice \<le> ob_high b * (1002 / 1000))"

definition blockConfluence :: "OrderBlock list \<Rightarrow> real \<Rightarrow> Signals \<Rightarrow> Signals" where
  "blockConfluence orderBlocks currentPrice s =
     (let s1 = (case find (nearBlock Demand currentPrice) orderBlocks of
                  Some b \<Rightarrow> addBullish 3 (NearDemandBlock (ob_strength b)) s
                | None \<Rightarrow> s)
      in case find (nearBlock Supply currentPrice) orderBlocks of
           Some b \<Rightarrow> addBearish 3 (NearSupplyBlock (ob_strength b)) s1
         | None \<Rightarrow> s1)"

definition microConfluence :: "Microstructure \<Rightarrow> Signals \<Rightarrow> Signals" where
  "microConfluence microstructure s =
     (if microstructure = MicroBullish then addBullish 2 BullishMarketStructure s
      else if microstructure = MicroBearish then addBearish 2 BearishMarketStructure s
      else s)"

definition volumeConfluence :: "VolumeProfile \<Rightarrow> Signals \<Rightarrow> Signals" where
  "volumeConfluence volumeProfile s =
     (if volumeProfile = VolHigh then addScore 2 HighVolumeConfirmation s else s)"

definition sessionConfluence :: "bool \<Rightarrow> Signals \<Rightarrow> Signals" where
  "sessionConfluence active s =
     (if \<not> active then addScore (- 1) OutsideMajorSessions s
      else addScore 1 ActiveTradingSession s)"

text \<open>The tallies after the last rule, before the confidence is computed.\<close>

definition confluenceTally ::
  "AnalysisResult \<Rightarrow> AdvancedAnalysisResult \<Rightarrow> real \<Rightarrow> FairValueGap list \<Rightarrow> OrderBlock list
   \<Rightarrow> VolumeProfile \<Rightarrow> Microstructure \<Rightarrow> Signals" where
  "confluenceTally analysis advancedAnalysis currentPrice fvgs orderBlocks volumeProfile microstructure =
     sessionConfluence (sessionFilter advancedAnalysis)
       (volumeConfluence volumeProfile
          (microConfluence microstructure
             (blockConfluence orderBlocks currentPrice
                (fvgConfluence fvgs currentPrice
                   (emaConfluence (latestValue (ema12 analysis)) (latestValue (ema26 analysis))
                      currentPrice
                      (macdConfluence (latestValue (histogram (macdResult analysis)))
                         (previousValue (histogram (macdResult analysis)))
                         (rsiConfluence (latestValue (rsi analysis))
                            \<lparr>bullish = 0, bearish = 0, reasons = [],
                             confluenceScore = 0\<rparr>)))))))"

definition confidenceOf :: "Signals \<Rightarrow> real" where
  "confidenceOf signals =
     (let totalSignals = bullish signals + bearish signals;
          conf0 = (if totalSignals > 0
                   then (real (max (bullish signals) (bearish signals)) / real totalSignals) * 100
                   else 50);
          confluenceBoost = min (real_of_int (confluenceScore signals * 2)) 25;
          conf1 = min (conf0 + confluenceBoost) 95
      in if confluenceScore signals \<ge> 5 then max conf1 60 else conf1)"

definition analyzeAdvancedConfluence ::
  "CandlestickData list \<Rightarrow> AnalysisResult \<Rightarrow> AdvancedAnalysisResult \<Rightarrow> real
   \<Rightarrow> FairValueGap list \<Rightarrow> OrderBlock list \<Rightarrow> LiquidityZone list
   \<Rightarrow> VolumeProfile \<Rightarrow> Microstructure \<Rightarrow> ConfluenceResult" where
  "analyzeAdvancedConfluence data analysis advancedAnalysis currentPrice fvgs orderBlocks
     liquidityZones volumeProfile microstructure =
     (let signals = confluenceTally analysis advancedAnalysis currentPrice fvgs orderBlocks
                      volumeProfile microstructure
      in \<lparr>bullish = bullish signals, bearish = bearish signals, reasons = reasons signals,
          confluenceScore = confluenceScore signals, confidence = confidenceOf signals\<rparr>)"

section \<open>Signal classifier\<close>

datatype EnhancedSignalType = STRONG_BUY | BUY | WEAK_BUY | HOLD | WEAK_SELL | SELL | STRONG_SELL

definition determineSmartMoneySignal ::
  "EnhancedStrategyConfig \<Rightarrow> ConfluenceResult \<Rightarrow> AdvancedAnalysisResult \<Rightarrow> Microstructure
   \<Rightarrow> EnhancedSignalType" where
  "determineSmartMoneySignal cfg confluenceAnalysis advancedAnalysis microstructure =
     (if confidence confluenceAnalysis < minConfidence cfg then HOLD
      else if confluenceScore confluenceAnalysis < 4 then HOLD
      else
        (let signalStrength = \<bar>int (bullish confluenceAnalysis) - int (bearish confluenceAnalysis)\<bar>;
             isVeryStrongSignal = (confluenceScore confluenceAnalysis \<ge> 12 \<and> signalStrength \<ge> 6
                                   \<and> confidence confluenceAnalysis \<ge> 85);
             isStrongSignal = (confluenceScore confluenceAnalysis \<ge> 8 \<and> signalStrength \<ge> 4
                               \<and> confidence confluenceAnalysis \<ge> 75)
         in if bullish confluenceAnalysis > bearish confluenceAnalysis
            then (if isVeryStrongSignal then STRONG_BUY
                  else if isStrongSignal then BUY else WEAK_BUY)
            else if bearish confluenceAnalysis > bullish confluenceAnalysis
            then (if isVeryStrongSignal then STRONG_SELL
                  else if isStrongSignal then SELL else WEAK_SELL)
            else HOLD))"

text \<open>
  The signal object without its stop-loss, take-profit, trailing-stop and risk-reward
  fields, which no property below reads.
\<close>

record EnhancedTradingSignal =
  es_signal :: EnhancedSignalType
  es_confidence :: real
  es_timestamp :: string
  es_price :: real
  es_reasons :: "reason list"
  es_marketRegime :: MarketRegime
  es_sessionActive :: bool
  es_confluenceScore :: int
  es_fairValueGaps :: "FairValueGap list"
  es_orderBlocks :: "OrderBlock list"
  es_liquidityZones :: "LiquidityZone list"
  es_volumeProfile :: VolumeProfile
  es_microstructure :: Microstructure

definition generateEnhancedSignal ::
  "EnhancedStrategyConfig \<Rightarrow> CandlestickData list \<Rightarrow> AnalysisResult \<Rightarrow> AdvancedAnalysisResult
   \<Rightarrow> error + EnhancedTradingSignal" where
  "generateEnhancedSignal cfg data analysis advancedAnalysis =
     (if data = [] then Inl TypeError
      else
        (let currentPrice = close (last data);
             fairValueGaps = identifyFairValueGaps cfg data;
             orderBlocks = identifyOrderBlocks cfg data;
             liquidityZones = identifyLiquidityZones data;
             volumeProfile = analyzeVolumeProfile data
         in case analyzeMarketMicrostructure data fairValueGaps orderBlocks of
              Inl e \<Rightarrow> Inl e
            | Inr microstructure \<Rightarrow>
                (let confluenceAnalysis =
                       analyzeAdvancedConfluence data analysis advancedAnalysis currentPrice
                         fairValueGaps orderBlocks liquidityZones volumeProfile microstructure
                 in Inr \<lparr>es_signal = determineSmartMoneySignal cfg confluenceAnalysis
                                        advancedAnalysis microstructure,
                         es_confidence = confidence confluenceAnalysis,
                         es_timestamp = timestamp (last data),
                         es_price = currentPrice,
                         es_reasons = reasons confluenceAnalysis,
                         es_marketRegime = marketRegime advancedAnalysis,
                         es_sessionActive = sessionFilter advancedAnalysis,
                         es_confluenceScore = confluenceScore confluenceAnalysis,
                         es_fairValueGaps = fairValueGaps,
                         es_orderBlocks = orderBlocks,
                         es_liquidityZones = liquidityZones,
                         es_volumeProfile = volumeProfile,
                         es_microstructure = microstructure\<rparr>)))"

section \<open>Auxiliary notions of the proofs\<close>

text \<open>Every vote counted in a tally is also counted in the confluence score.\<close>

definition scoreCovers :: "Signals \<Rightarrow> bool" where
  "scoreCovers s = (int (bullish s) + int (bearish s) \<le> confluenceScore s)"

section \<open>Sample inputs\<close>

text \<open>A candle whose four prices are equal, with volume 1000.\<close>

definition flatCandle :: "string \<Rightarrow> real \<Rightarrow> CandlestickData" where
  "flatCandle t p = \<lparr>timestamp = t, openPrice = p, high = p, low = p, close = p, volume = 1000\<rparr>"

text \<open>Three candles closing at 1, 2 and 3: gains only.\<close>

definition rising :: "CandlestickData list" where
  "rising = [flatCandle ''t0'' 1, flatCandle ''t1'' 2, flatCandle ''t2'' 3]"

text \<open>An analysis whose latest RSI and previous MACD histogram values are 0.\<close>

definition zeroAnalysis :: AnalysisResult where
  "zeroAnalysis =
     \<lparr>sma20 = [], sma50 = [], ema12 = [], ema26 = [],
      rsi = [\<lparr>ti_timestamp = ''t1'', ti_value = 0\<rparr>],
      macdResult = \<lparr>macd = [\<lparr>ti_timestamp = ''t0'', ti_value = 1\<rparr>, \<lparr>ti_timestamp = ''t1'', ti_value = 3\<rparr>],
                    signal = [\<lparr>ti_timestamp = ''t0'', ti_value = 1\<rparr>, \<lparr>ti_timestamp = ''t1'', ti_value = 2\<rparr>],
                    histogram = [\<lparr>ti_timestamp = ''t0'', ti_value = 0\<rparr>, \<lparr>ti_timestamp = ''t1'', ti_value = 1\<rparr>]\<rparr>,
      bollingerBands = \<lparr>upper = [], middle = [], lower = []\<rparr>,
      stochasticK = [], stochasticD = []\<rparr>"

definition quietSession :: AdvancedAnalysisResult where
  "quietSession = \<lparr>adx = [], atr = [], marketRegime = Ranging, sessionFilter = True\<rparr>"

text \<open>
  The three candles of the single-gap scenario: the low of the first is 1.1050 and the
  high of the third is 1.1020.
\<close>

definition gapScenario :: "CandlestickData list" where
  "gapScenario =
     [\<lparr>timestamp = ''t0'', openPrice = 11060 / 10000, high = 11070 / 10000,
       low = 11050 / 10000, close = 11055 / 10000, volume = 1000\<rparr>,
      \<lparr>timestamp = ''t1'', openPrice = 11055 / 10000, high = 11056 / 10000,
       low = 11030 / 10000, close = 11032 / 10000, volume = 1000\<rparr>,
      \<lparr>timestamp = ''t2'', openPrice = 11015 / 10000, high = 11020 / 10000,
       low = 11005 / 10000, close = 11010 / 10000, volume = 1000\<rparr>]"

text \<open>The scenario after one earlier candle, and the gap it holds.\<close>

definition gapAfterOne :: "CandlestickData list" where
  "gapAfterOne = flatCandle ''pre'' (1106 / 1000) # gapScenario"

definition laterCandle :: CandlestickData where
  "laterCandle = flatCandle ''t3'' (1104 / 1000)"

definition scenarioGap :: FairValueGap where
  "scenarioGap =
     \<lparr>fvg_type = FvgBullish, fvg_high = 11050 / 10000, fvg_low = 11020 / 10000, fvg_index = 2,
      filled = True, fvg_strength = Some (30 / 10000 / (11055 / 10000) * 10000)\<rparr>"

text \<open>
  Thirteen rising full-body candles whose volume doubles each time: a gap at every
  index from 2 to 11 and an order block at every index from 3 to 9.
\<close>

definition ramp :: "nat \<Rightarrow> CandlestickData" where
  "ramp i = \<lparr>timestamp = ''r'', openPrice = real i + 1, high = real i + 2, low = real i + 1,
             close = real i + 2, volume = 2 ^ i\<rparr>"

definition rampData :: "CandlestickData list" where
  "rampData = map ramp [0..<13]"

text \<open>Twenty-three candles, every fourth one wider than its neighbours on both sides.\<close>

definition spike :: "nat \<Rightarrow> CandlestickData" where
  "spike i =
     (if i mod 4 = 3
      then \<lparr>timestamp = ''s'', openPrice = 10, high = 20, low = 1, close = 10, volume = 1000\<rparr>
      else \<lparr>timestamp = ''s'', openPrice = 10, high = 11, low = 9, close = 10, volume = 1000\<rparr>)"

definition spikeData :: "CandlestickData list" where
  "spikeData = map spike [0..<23]"
text \<open>
  What capping a detected list to its last \<open>n\<close> entries means: the returned list has at
  most \<open>n\<close> entries in origin order, it is the detected list without a prefix, nothing is
  dropped unless \<open>n\<close> entries stay, and no dropped entry has a later origin than a kept one.
\<close>

definition cappedTo :: "nat \<Rightarrow> ('a \<Rightarrow> nat) \<Rightarrow> 'a list \<Rightarrow> 'a list \<Rightarrow> bool" where
  "cappedTo n idx detected returned =
     (length returned \<le> n
      \<and> sorted (map idx returned)
      \<and> (\<exists>dropped. detected = dropped @ returned
            \<and> (dropped \<noteq> [] \<longrightarrow> length returned = n)
            \<and> (\<forall>g \<in> set dropped. \<forall>r \<in> set returned. idx g \<le> idx r)))"

text \<open>
  Forty candles closing at 1, except the last, which closes at 28; the last four carry
  their index as timestamp.
\<close>

definition macdSpike :: "CandlestickData list" where
  "macdSpike = replicate 36 (flatCandle ''a'' 1)
     @ [flatCandle ''t36'' 1, flatCandle ''t37'' 1, flatCandle ''t38'' 1, flatCandle ''t39'' 28]"

text \<open>
  The flat market: thirty identical candles at 1.1000 with volume 1000, the analysis
  \<open>analyzeAll\<close> returns for them, and their advanced analysis inside or outside a
  trading session.
\<close>

definition flat30 :: "CandlestickData list" where
  "flat30 = replicate 30 (flatCandle ''t'' (11 / 10))"

definition flatPoint :: TechnicalIndicator where
  "flatPoint = \<lparr>ti_timestamp = ''t'', ti_value = 11 / 10\<rparr>"

definition flatAnalysis :: AnalysisResult where
  "flatAnalysis =
     \<lparr>sma20 = replicate 11 flatPoint,
      sma50 = [],
      ema12 = replicate 19 flatPoint,
      ema26 = replicate 5 flatPoint,
      rsi = replicate 16 \<lparr>ti_timestamp = ''t'', ti_value = 100 - 100 / 101\<rparr>,
      macdResult = \<lparr>macd = [], signal = [], histogram = []\<rparr>,
      bollingerBands = \<lparr>upper = replicate 11 flatPoint, middle = replicate 11 flatPoint,
                        lower = replicate 11 flatPoint\<rparr>,
      stochasticK = [], stochasticD = []\<rparr>"

definition flatAdvanced :: "bool \<Rightarrow> AdvancedAnalysisResult" where
  "flatAdvanced session =
     \<lparr>adx = calculateADX flat30 14, atr = calculateATR flat30 14,
      marketRegime = Ranging, sessionFilter = session\<rparr>"

text \<open>
  Thirty candles each closing one below the one before, and fifty identical candles.
\<close>

definition falling30 :: "CandlestickData list" where
  "falling30 = map (\<lambda>i. flatCandle ''t'' (100 - real i)) [0..<30]"

definition flat50 :: "CandlestickData list" where
  "flat50 = replicate 50 (flatCandle ''t'' (11 / 10))"

section \<open>The signal classifier\<close>

text \<open>
  C6. For every confluence result the enhanced classifier returns HOLD exactly when the
  confidence is below the configured minimum confidence, or the confluence score is below
  the minimum confluence (the constant 4), or the two tallies are equal. It returns one of
  the three BUY levels exactly when none of these holds and the bullish tally is the
  larger one, and one of the three SELL levels exactly when none holds and the bearish
  tally is the larger one.
\<close>

theorem classifier_hold_and_direction:
  "(determineSmartMoneySignal cfg r adv m = HOLD
      \<longleftrightarrow> (confidence r < minConfidence cfg \<or> confluenceScore r < 4 \<or> bullish r = bearish r))
   \<and> ((determineSmartMoneySignal cfg r adv m = STRONG_BUY
        \<or> determineSmartMoneySignal cfg r adv m = BUY
        \<or> determineSmartMoneySignal cfg r adv m = WEAK_BUY)
      \<longleftrightarrow> (minConfidence cfg \<le> confidence r \<and> 4 \<le> confluenceScore r \<and> bearish r < bullish r))
   \<and> ((determineSmartMoneySignal cfg r adv m = STRONG_SELL
        \<or> determineSmartMoneySignal cfg r adv m = SELL
        \<or> determineSmartMoneySignal cfg r adv m = WEAK_SELL)
      \<longleftrightarrow> (minConfidence cfg \<le> confidence r \<and> 4 \<le> confluenceScore r \<and> bullish r < bearish r))"
  by (auto simp: determineSmartMoneySignal_def Let_def)

section \<open>Confidence bounds\<close>

lemma calculateConfidence_bounds:
  "0 \<le> calculateConfidence s \<and> calculateConfidence s \<le> 100"
  by (simp add: calculateConfidence_def Let_def)

lemma scoreCovers_addBullish: "scoreCovers s \<Longrightarrow> scoreCovers (addBullish n r s)"
  by (simp add: scoreCovers_def addBullish_def)

lemma scoreCovers_addBearish: "scoreCovers s \<Longrightarrow> scoreCovers (addBearish n r s)"
  by (simp add: scoreCovers_def addBearish_def)

lemma scoreCovers_rsi: "scoreCovers s \<Longrightarrow> scoreCovers (rsiConfluence v s)"
  by (simp add: rsiConfluence_def scoreCovers_addBullish scoreCovers_addBearish)

lemma scoreCovers_macd: "scoreCovers s \<Longrightarrow> scoreCovers (macdConfluence v w s)"
  by (simp add: macdConfluence_def scoreCovers_addBullish scoreCovers_addBearish)

lemma scoreCovers_ema: "scoreCovers s \<Longrightarrow> scoreCovers (emaConfluence v w p s)"
  by (simp add: emaConfluence_def scoreCovers_addBullish scoreCovers_addBearish)

lemma scoreCovers_fvg: "scoreCovers s \<Longrightarrow> scoreCovers (fvgConfluence gs p s)"
  by (simp add: fvgConfluence_def Let_def scoreCovers_addBullish scoreCovers_addBearish
      split: option.splits)

lemma scoreCovers_block: "scoreCovers s \<Longrightarrow> scoreCovers (blockConfluence bs p s)"
  by (simp add: blockConfluence_def Let_def scoreCovers_addBullish scoreCovers_addBearish
      split: option.splits)

lemma scoreCovers_micro: "scoreCovers s \<Longrightarrow> scoreCovers (microConfluence m s)"
  by (simp add: microConfluence_def scoreCovers_addBullish scoreCovers_addBearish)

lemma scoreCovers_volume: "scoreCovers s \<Longrightarrow> scoreCovers (volumeConfluence v s)"
  by (simp add: volumeConfluence_def addScore_def scoreCovers_def)

text \<open>Only the session penalty takes the score below the sum of the tallies, by one.\<close>

lemma tally_score:
  "int (bullish (confluenceTally a adv p gs bs v m))
     + int (bearish (confluenceTally a adv p gs bs v m)) - 1
   \<le> confluenceScore (confluenceTally a adv p gs bs v m)"
proof -
  let ?s = "volumeConfluence v (microConfluence m (blockConfluence bs p (fvgConfluence gs p
             (emaConfluence (latestValue (ema12 a)) (latestValue (ema26 a)) p
               (macdConfluence (latestValue (histogram (macdResult a)))
                  (previousValue (histogram (macdResult a)))
                  (rsiConfluence (latestValue (rsi a))
                     \<lparr>bullish = 0, bearish = 0, reasons = [], confluenceScore = 0\<rparr>))))))"
  have "scoreCovers \<lparr>bullish = 0, bearish = 0, reasons = [], confluenceScore = 0\<rparr>"
    by (simp add: scoreCovers_def)
  then have "scoreCovers ?s"
    by (intro scoreCovers_volume scoreCovers_micro scoreCovers_block scoreCovers_fvg
          scoreCovers_ema scoreCovers_macd scoreCovers_rsi)
  then show ?thesis
    by (simp add: confluenceTally_def sessionConfluence_def addScore_def scoreCovers_def)
qed

lemma confidenceOf_upper: "confidenceOf s \<le> 95"
  by (simp add: confidenceOf_def Let_def)

lemma confidenceOf_lower:
  assumes "int (bullish s) + int (bearish s) - 1 \<le> confluenceScore s"
  shows "48 \<le> confidenceOf s"
proof (cases "bullish s + bearish s = 0")
  case True
  with assms have "- 1 \<le> confluenceScore s" by simp
  then have "- 2 \<le> real_of_int (confluenceScore s * 2)" by simp
  with True show ?thesis by (simp add: confidenceOf_def Let_def min_def max_def)
next
  case False
  then have "0 < bullish s + bearish s" by simp
  then have pos: "0 < real (bullish s + bearish s)" by (simp only: of_nat_0_less_iff)
  have "real (bullish s + bearish s) \<le> 2 * real (max (bullish s) (bearish s))"
    by (simp add: max_def)
  with pos have half: "50 \<le> real (max (bullish s) (bearish s)) / real (bullish s + bearish s) * 100"
    by (simp add: field_simps)
  from False assms have "0 \<le> confluenceScore s" by linarith
  then have "0 \<le> real_of_int (confluenceScore s * 2)" by simp
  with half False show ?thesis
    by (simp add: confidenceOf_def Let_def min_def max_def)
qed

text \<open>
  C5. The confidence of the basic strategy (\<open>calculateConfidence\<close>, for all tallies and
  reason lists) and the confidence returned by the enhanced strategy's
  \<open>analyzeAdvancedConfluence\<close> (for all its inputs, the session penalty and its negative
  score included) lie between 0 and 100.
\<close>

theorem confidence_clamped:
  "0 \<le> calculateConfidence signals \<and> calculateConfidence signals \<le> 100
   \<and> 0 \<le> confidence (analyzeAdvancedConfluence data a adv p gs bs zs v m)
   \<and> confidence (analyzeAdvancedConfluence data a adv p gs bs zs v m) \<le> 100"
proof -
  have "48 \<le> confidenceOf (confluenceTally a adv p gs bs v m)"
    by (rule confidenceOf_lower [OF tally_score])
  moreover have "confidenceOf (confluenceTally a adv p gs bs v m) \<le> 95"
    by (rule confidenceOf_upper)
  ultimately show ?thesis
    using calculateConfidence_bounds [of signals]
    by (simp add: analyzeAdvancedConfluence_def Let_def)
qed

section \<open>Relative strength index\<close>

lemma foldl_plus: "foldl (\<lambda>acc x. acc + f x) a xs = a + sum_list (map f xs)"
  for a :: real
  by (induction xs arbitrary: a) simp_all

lemma sumBy_sum_list: "sumBy f xs = sum_list (map f xs)"
  by (simp add: sumBy_def foldl_plus)

lemma sumBy_nonneg: "(\<And>x. x \<in> set xs \<Longrightarrow> 0 \<le> f x) \<Longrightarrow> 0 \<le> sumBy f xs"
  by (auto simp: sumBy_sum_list intro!: sum_list_nonneg)

lemma set_slice: "set (slice s e xs) \<subseteq> set xs"
  unfolding slice_def by (meson set_take_subset set_drop_subset subset_trans)

lemma windowAvg_nonneg: "(\<And>x. x \<in> set xs \<Longrightarrow> 0 \<le> x) \<Longrightarrow> 0 \<le> windowAvg xs i period"
  unfolding windowAvg_def using set_slice [of _ _ xs]
  by (intro divide_nonneg_nonneg sumBy_nonneg) auto

lemma gains_nonneg: "x \<in> set (gainsOf data) \<Longrightarrow> 0 \<le> x"
  by (auto simp: gainsOf_def)

lemma losses_nonneg: "x \<in> set (lossesOf data) \<Longrightarrow> 0 \<le> x"
  by (auto simp: lossesOf_def)

lemma rsiOf_bounds:
  assumes "0 \<le> g" "0 \<le> l"
  shows "0 \<le> rsiOf g l \<and> rsiOf g l \<le> 100"
proof (cases "l = 0")
  case True
  then show ?thesis by (simp add: rsiOf_def)
next
  case False
  define r where "r = g / l"
  from assms have r: "0 \<le> r" by (simp add: r_def)
  then have pos: "0 < 1 + r" by simp
  have "100 / (1 + r) \<le> 100"
    using r pos by (simp add: pos_divide_le_eq)
  moreover from pos have "0 \<le> 100 / (1 + r)" by simp
  ultimately show ?thesis using False by (simp add: rsiOf_def r_def)
qed

lemma rsiOf_zero_loss: "rsiOf g 0 = 100 - 100 / 101"
  by (simp add: rsiOf_def)

text \<open>
  C7. For every candle sequence and every positive period, each value of the RSI series
  lies between 0 and 100; and a point whose trailing average loss over its window is zero
  has the value \<open>100 - 100 / 101\<close>, the value of the formula at \<open>RS = 100\<close>.
\<close>

theorem rsi_bounds:
  assumes "0 < period"
  shows "(\<forall>p \<in> set (calculateRSI data period). 0 \<le> ti_value p \<and> ti_value p \<le> 100)
       \<and> (\<forall>k < length (calculateRSI data period).
            windowAvg (lossesOf data) (k + period - 1) period = 0
              \<longrightarrow> ti_value (calculateRSI data period ! k) = 100 - 100 / 101)"
proof -
  have bounds: "0 \<le> ti_value p \<and> ti_value p \<le> 100" if "p \<in> set (calculateRSI data period)" for p
  proof -
    from that obtain i where
      "ti_value p = rsiOf (windowAvg (gainsOf data) i period) (windowAvg (lossesOf data) i period)"
      by (auto simp: calculateRSI_def Let_def)
    moreover have "0 \<le> windowAvg (gainsOf data) i period"
      by (rule windowAvg_nonneg) (rule gains_nonneg)
    moreover have "0 \<le> windowAvg (lossesOf data) i period"
      by (rule windowAvg_nonneg) (rule losses_nonneg)
    ultimately show ?thesis by (simp add: rsiOf_bounds)
  qed
  have zero: "ti_value (calculateRSI data period ! k) = 100 - 100 / 101"
    if k: "k < length (calculateRSI data period)"
      and z: "windowAvg (lossesOf data) (k + period - 1) period = 0" for k
  proof -
    from k have "k < length (gainsOf data) - (period - 1)"
      by (simp add: calculateRSI_def Let_def)
    then have "ti_value (calculateRSI data period ! k) =
        rsiOf (windowAvg (gainsOf data) (period - 1 + k) period)
              (windowAvg (lossesOf data) (period - 1 + k) period)"
      by (simp add: calculateRSI_def Let_def)
    moreover from assms have "period - 1 + k = k + period - 1" by simp
    ultimately show ?thesis using z by (simp add: rsiOf_zero_loss)
  qed
  from bounds zero show ?thesis by blast
qed

lemma rising_rsi: "calculateRSI rising 2 = [\<lparr>ti_timestamp = ''t2'', ti_value = 100 - 100 / 101\<rparr>]"
  by (simp add: calculateRSI_def rising_def flatCandle_def gainsOf_def lossesOf_def changes_def
      windowAvg_def slice_def sumBy_def rsiOf_def Let_def upt_rec)

theorem rsi_bounds_witness:
  "0 < (2::nat) \<and> length (calculateRSI rising 2) = 1
   \<and> windowAvg (lossesOf rising) (0 + 2 - 1) 2 = 0
   \<and> ti_value (calculateRSI rising 2 ! 0) = 100 - 100 / 101
   \<and> 0 \<le> ti_value (calculateRSI rising 2 ! 0) \<and> ti_value (calculateRSI rising 2 ! 0) \<le> 100"
proof -
  have len: "length (calculateRSI rising 2) = 1" by (simp add: rising_rsi)
  have z: "windowAvg (lossesOf rising) (0 + 2 - 1) 2 = 0"
    by (simp add: rising_def flatCandle_def lossesOf_def changes_def windowAvg_def slice_def
        sumBy_def upt_rec)
  have mem: "calculateRSI rising 2 ! 0 \<in> set (calculateRSI rising 2)"
    by (rule nth_mem) (simp add: len)
  have pos: "0 < (2::nat)" by simp
  from rsi_bounds [OF pos, of rising] have
    a: "\<forall>p \<in> set (calculateRSI rising 2). 0 \<le> ti_value p \<and> ti_value p \<le> 100" and
    b: "\<forall>k < length (calculateRSI rising 2).
            windowAvg (lossesOf rising) (k + 2 - 1) 2 = 0
              \<longrightarrow> ti_value (calculateRSI rising 2 ! k) = 100 - 100 / 101"
    by blast+
  from b len z have "ti_value (calculateRSI rising 2 ! 0) = 100 - 100 / 101" by (metis zero_less_one)
  with a mem len z pos show ?thesis by blast
qed

section \<open>Zero values in the confluence engines\<close>

lemma truthy_zero: "truthy (Some 0) = False" and truthy_None: "truthy None = False"
  by (simp_all add: truthy_def)

lemma latestValue_Nil: "latestValue [] = None" and previousValue_Nil: "previousValue [] = None"
  by (simp_all add: latestValue_def previousValue_def)

lemma rsiConfluence_absent: "\<not> truthy v \<Longrightarrow> rsiConfluence v s = s"
  by (simp add: rsiConfluence_def)

lemma macdConfluence_absent: "\<not> truthy h \<or> \<not> truthy pr \<Longrightarrow> macdConfluence h pr s = s"
  by (auto simp: macdConfluence_def)

lemma emaConfluence_absent: "\<not> truthy a \<or> \<not> truthy b \<Longrightarrow> emaConfluence a b p s = s"
  by (auto simp: emaConfluence_def)

lemma rsiRule_absent: "\<not> truthy v \<Longrightarrow> rsiRule v s = s"
  by (simp add: rsiRule_def)

lemma macdRule_absent: "\<not> truthy m \<or> \<not> truthy g \<or> \<not> truthy h \<Longrightarrow> macdRule m g h s = s"
  by (auto simp: macdRule_def)

lemma smaRule_absent: "\<not> truthy a \<or> \<not> truthy b \<Longrightarrow> smaRule a b p s = s"
  by (auto simp: smaRule_def)

lemma emaRule_absent: "\<not> truthy a \<or> \<not> truthy b \<Longrightarrow> emaRule a b s = s"
  by (auto simp: emaRule_def)

lemma bollingerRule_absent:
  "\<not> truthy u \<or> \<not> truthy l \<or> \<not> truthy m \<Longrightarrow> bollingerRule u l m p s = s"
  by (auto simp: bollingerRule_def)

lemmas absent_rules =
  rsiConfluence_absent macdConfluence_absent emaConfluence_absent
  rsiRule_absent macdRule_absent smaRule_absent emaRule_absent bollingerRule_absent
  truthy_zero truthy_None latestValue_Nil previousValue_Nil

text \<open>The enhanced engine: a series whose value read by a rule is 0 counts like an empty one.\<close>

lemma enhanced_zero:
  fixes a :: AnalysisResult
  shows
    "latestValue (rsi a) = Some 0 \<Longrightarrow>
       analyzeAdvancedConfluence data a adv p gs bs zs v m
       = analyzeAdvancedConfluence data (a\<lparr>rsi := []\<rparr>) adv p gs bs zs v m"
    "latestValue (histogram (macdResult a)) = Some 0
       \<or> previousValue (histogram (macdResult a)) = Some 0 \<Longrightarrow>
       analyzeAdvancedConfluence data a adv p gs bs zs v m
       = analyzeAdvancedConfluence data (a\<lparr>macdResult := (macdResult a)\<lparr>histogram := []\<rparr>\<rparr>)
           adv p gs bs zs v m"
    "latestValue (ema12 a) = Some 0 \<Longrightarrow>
       analyzeAdvancedConfluence data a adv p gs bs zs v m
       = analyzeAdvancedConfluence data (a\<lparr>ema12 := []\<rparr>) adv p gs bs zs v m"
    "latestValue (ema26 a) = Some 0 \<Longrightarrow>
       analyzeAdvancedConfluence data a adv p gs bs zs v m
       = analyzeAdvancedConfluence data (a\<lparr>ema26 := []\<rparr>) adv p gs bs zs v m"
  by (auto simp: analyzeAdvancedConfluence_def confluenceTally_def absent_rules)

text \<open>The basic engine reads eleven series, each through the same test.\<close>

lemma basic_zero:
  fixes a :: AnalysisResult
  shows
    "latestValue (rsi a) = Some 0 \<Longrightarrow>
       analyzeIndicators a p = analyzeIndicators (a\<lparr>rsi := []\<rparr>) p"
    "latestValue (histogram (macdResult a)) = Some 0 \<Longrightarrow>
       analyzeIndicators a p
       = analyzeIndicators (a\<lparr>macdResult := (macdResult a)\<lparr>histogram := []\<rparr>\<rparr>) p"
    "latestValue (macd (macdResult a)) = Some 0 \<Longrightarrow>
       analyzeIndicators a p
       = analyzeIndicators (a\<lparr>macdResult := (macdResult a)\<lparr>macd := []\<rparr>\<rparr>) p"
    "latestValue (signal (macdResult a)) = Some 0 \<Longrightarrow>
       analyzeIndicators a p
       = analyzeIndicators (a\<lparr>macdResult := (macdResult a)\<lparr>signal := []\<rparr>\<rparr>) p"
    "latestValue (sma20 a) = Some 0 \<Longrightarrow>
       analyzeIndicators a p = analyzeIndicators (a\<lparr>sma20 := []\<rparr>) p"
    "latestValue (sma50 a) = Some 0 \<Longrightarrow>
       analyzeIndicators a p = analyzeIndicators (a\<lparr>sma50 := []\<rparr>) p"
    "latestValue (ema12 a) = Some 0 \<Longrightarrow>
       analyzeIndicators a p = analyzeIndicators (a\<lparr>ema12 := []\<rparr>) p"
    "latestValue (ema26 a) = Some 0 \<Longrightarrow>
       analyzeIndicators a p = analyzeIndicators (a\<lparr>ema26 := []\<rparr>) p"
    "latestValue (upper (bollingerBands a)) = Some 0 \<Longrightarrow>
       analyzeIndicators a p
       = analyzeIndicators (a\<lparr>bollingerBands := (bollingerBands a)\<lparr>upper := []\<rparr>\<rparr>) p"
    "latestValue (lower (bollingerBands a)) = Some 0 \<Longrightarrow>
       analyzeIndicators a p
       = analyzeIndicators (a\<lparr>bollingerBands := (bollingerBands a)\<lparr>lower := []\<rparr>\<rparr>) p"
    "latestValue (middle (bollingerBands a)) = Some 0 \<Longrightarrow>
       analyzeIndicators a p
       = analyzeIndicators (a\<lparr>bollingerBands := (bollingerBands a)\<lparr>middle := []\<rparr>\<rparr>) p"
  by (simp_all add: analyzeIndicators_def absent_rules)

text \<open>
  C10. In both confluence engines a series whose latest value is exactly 0 is treated
  like an empty series. In the enhanced engine the result is the same as with no RSI
  series when the latest RSI is 0, the same as with no MACD histogram when its newest or
  its previous value is 0, and the same as with no EMA series when the latest EMA12 or
  EMA26 is 0. In the basic engine the tallies and reasons are the same as with the series
  removed when the latest value of the RSI, of the MACD histogram, line or signal, of an
  SMA or EMA, or of a Bollinger band is 0.
\<close>

theorem zero_value_is_absent:
  fixes a :: AnalysisResult
  shows
  "(latestValue (rsi a) = Some 0 \<longrightarrow>
      analyzeAdvancedConfluence data a adv p gs bs zs v m
        = analyzeAdvancedConfluence data (a\<lparr>rsi := []\<rparr>) adv p gs bs zs v m
      \<and> analyzeIndicators a p = analyzeIndicators (a\<lparr>rsi := []\<rparr>) p)
   \<and> (latestValue (histogram (macdResult a)) = Some 0
        \<or> previousValue (histogram (macdResult a)) = Some 0 \<longrightarrow>
      analyzeAdvancedConfluence data a adv p gs bs zs v m
        = analyzeAdvancedConfluence data (a\<lparr>macdResult := (macdResult a)\<lparr>histogram := []\<rparr>\<rparr>)
            adv p gs bs zs v m)
   \<and> (latestValue (histogram (macdResult a)) = Some 0 \<longrightarrow>
      analyzeIndicators a p
        = analyzeIndicators (a\<lparr>macdResult := (macdResult a)\<lparr>histogram := []\<rparr>\<rparr>) p)
   \<and> (latestValue (ema12 a) = Some 0 \<longrightarrow>
      analyzeAdvancedConfluence data a adv p gs bs zs v m
        = analyzeAdvancedConfluence data (a\<lparr>ema12 := []\<rparr>) adv p gs bs zs v m
      \<and> analyzeIndicators a p = analyzeIndicators (a\<lparr>ema12 := []\<rparr>) p)
   \<and> (latestValue (ema26 a) = Some 0 \<longrightarrow>
      analyzeAdvancedConfluence data a adv p gs bs zs v m
        = analyzeAdvancedConfluence data (a\<lparr>ema26 := []\<rparr>) adv p gs bs zs v m
      \<and> analyzeIndicators a p = analyzeIndicators (a\<lparr>ema26 := []\<rparr>) p)
   \<and> (latestValue (macd (macdResult a)) = Some 0 \<longrightarrow>
      analyzeIndicators a p
        = analyzeIndicators (a\<lparr>macdResult := (macdResult a)\<lparr>macd := []\<rparr>\<rparr>) p)
   \<and> (latestValue (signal (macdResult a)) = Some 0 \<longrightarrow>
      analyzeIndicators a p
        = analyzeIndicators (a\<lparr>macdResult := (macdResult a)\<lparr>signal := []\<rparr>\<rparr>) p)
   \<and> (latestValue (sma20 a) = Some 0 \<longrightarrow>
      analyzeIndicators a p = analyzeIndicators (a\<lparr>sma20 := []\<rparr>) p)
   \<and> (latestValue (sma50 a) = Some 0 \<longrightarrow>
      analyzeIndicators a p = analyzeIndicators (a\<lparr>sma50 := []\<rparr>) p)
   \<and> (latestValue (upper (bollingerBands a)) = Some 0 \<longrightarrow>
      analyzeIndicators a p
        = analyzeIndicators (a\<lparr>bollingerBands := (bollingerBands a)\<lparr>upper := []\<rparr>\<rparr>) p)
   \<and> (latestValue (lower (bollingerBands a)) = Some 0 \<longrightarrow>
      analyzeIndicators a p
        = analyzeIndicators (a\<lparr>bollingerBands := (bollingerBands a)\<lparr>lower := []\<rparr>\<rparr>) p)
   \<and> (latestValue (middle (bollingerBands a)) = Some 0 \<longrightarrow>
      analyzeIndicators a p
        = analyzeIndicators (a\<lparr>bollingerBands := (bollingerBands a)\<lparr>middle := []\<rparr>\<rparr>) p)"
  by (intro conjI impI enhanced_zero basic_zero) assumption+

text \<open>
  A histogram that goes from 0 to 1 is a crossing by the rule's own comparison
  (\<open>prev \<le> 0\<close> and \<open>latest > 0\<close>), and is not counted.
\<close>

theorem zero_value_is_absent_witness:
  "latestValue (rsi zeroAnalysis) = Some 0
   \<and> previousValue (histogram (macdResult zeroAnalysis)) = Some 0
   \<and> latestValue (histogram (macdResult zeroAnalysis)) = Some 1
   \<and> bullish (analyzeAdvancedConfluence [] zeroAnalysis quietSession 1 [] [] [] VolMedium MicroNeutral) = 0
   \<and> bearish (analyzeAdvancedConfluence [] zeroAnalysis quietSession 1 [] [] [] VolMedium MicroNeutral) = 0
   \<and> confluenceScore (analyzeAdvancedConfluence [] zeroAnalysis quietSession 1 [] [] [] VolMedium MicroNeutral) = 1"
proof -
  have r: "latestValue (rsi zeroAnalysis) = Some 0"
    by (simp add: zeroAnalysis_def latestValue_def)
  have h: "previousValue (histogram (macdResult zeroAnalysis)) = Some 0"
    by (simp add: zeroAnalysis_def previousValue_def)
  have l: "latestValue (histogram (macdResult zeroAnalysis)) = Some 1"
    by (simp add: zeroAnalysis_def latestValue_def)
  have e: "analyzeAdvancedConfluence [] (zeroAnalysis\<lparr>macdResult := (macdResult zeroAnalysis)\<lparr>histogram := []\<rparr>\<rparr>) quietSession 1 [] [] [] VolMedium MicroNeutral
     = \<lparr>bullish = 0, bearish = 0, reasons = [ActiveTradingSession], confluenceScore = 1, confidence = 52\<rparr>"
    by (simp add: analyzeAdvancedConfluence_def confluenceTally_def zeroAnalysis_def quietSession_def
        latestValue_def previousValue_def truthy_def rsiConfluence_def macdConfluence_def emaConfluence_def
        fvgConfluence_def blockConfluence_def microConfluence_def volumeConfluence_def
        sessionConfluence_def addScore_def confidenceOf_def Let_def)
  from zero_value_is_absent [of zeroAnalysis "[]" quietSession 1 "[]" "[]" "[]" VolMedium MicroNeutral] h
  have eq: "analyzeAdvancedConfluence [] zeroAnalysis quietSession 1 [] [] [] VolMedium MicroNeutral
     = analyzeAdvancedConfluence [] (zeroAnalysis\<lparr>macdResult := (macdResult zeroAnalysis)\<lparr>histogram := []\<rparr>\<rparr>) quietSession 1 [] [] [] VolMedium MicroNeutral"
    by blast
  show ?thesis using r h l by (simp add: eq e)
qed

section \<open>Sequences shorter than the period\<close>

lemma short_sma: "length data < period \<Longrightarrow> calculateSMA data period = []"
  by (simp add: calculateSMA_def)

lemma short_rsi: "length data < period \<Longrightarrow> calculateRSI data period = []"
  by (simp add: calculateRSI_def Let_def gainsOf_def changes_def)

lemma short_bollinger:
  "length data < period \<Longrightarrow>
     calculateBollingerBands data period sd = \<lparr>upper = [], middle = [], lower = []\<rparr>"
  by (simp add: calculateBollingerBands_def Let_def short_sma)

lemma short_adx: "length data < period \<Longrightarrow> calculateADX data period = []"
  by (simp add: calculateADX_def trueRanges_def)

lemma short_atr: "length data < period \<Longrightarrow> calculateATR data period = []"
  by (simp add: calculateATR_def filter_empty_conv)

lemma short_ema:
  "length data < period \<Longrightarrow>
     calculateEMA data period = (if data = [] then Inr [] else Inl TypeError)"
  by (auto simp: calculateEMA_def)

lemma macdLineOf_Nil: "macdLineOf [] [] = []"
  by (simp add: macdLineOf_def)

lemma short_macd:
  assumes "length data < 26"
  shows "calculateMACD data =
           (if data = [] then Inr \<lparr>macd = [], signal = [], histogram = []\<rparr> else Inl TypeError)"
proof (cases "data = []")
  case True
  then show ?thesis
    by (simp add: calculateMACD_def calculateEMA_def macdLineOf_Nil signalLineOf_def
        histogramOf_def)
next
  case False
  with assms have "calculateEMA data 26 = Inl TypeError"
    by (simp add: short_ema)
  with False show ?thesis
  proof (cases "calculateEMA data 12")
    case (Inl e)
    then show ?thesis using False by (cases e) (simp add: calculateMACD_def)
  next
    case (Inr e12)
    with \<open>calculateEMA data 26 = Inl TypeError\<close> False show ?thesis
      by (simp add: calculateMACD_def)
  qed
qed

text \<open>
  C1. What the indicator functions return on a sequence with fewer candles than the
  period: the SMA, the RSI, the Bollinger bands, the ADX and the ATR are empty series.
  \<open>calculateEMA\<close> returns an empty series on the empty sequence only; on a non-empty
  sequence shorter than the period it throws, and so does \<open>calculateMACD\<close> on a non-empty
  sequence of fewer than 26 candles.
\<close>

theorem short_input_results:
  assumes "length data < period"
  shows "calculateSMA data period = []
       \<and> calculateRSI data period = []
       \<and> calculateBollingerBands data period sd = \<lparr>upper = [], middle = [], lower = []\<rparr>
       \<and> calculateADX data period = []
       \<and> calculateATR data period = []
       \<and> calculateEMA data period = (if data = [] then Inr [] else Inl TypeError)
       \<and> (length data < 26 \<longrightarrow>
            calculateMACD data =
              (if data = [] then Inr \<lparr>macd = [], signal = [], histogram = []\<rparr>
               else Inl TypeError))"
  using assms
  by (simp add: short_sma short_rsi short_bollinger short_adx short_atr short_ema short_macd)

text \<open>One candle and the period 12: the SMA is empty, the EMA and the MACD throw.\<close>

theorem short_input_results_witness:
  "length [flatCandle ''t0'' 1] < (12::nat)
   \<and> calculateSMA [flatCandle ''t0'' 1] 12 = []
   \<and> calculateEMA [flatCandle ''t0'' 1] 12 = Inl TypeError
   \<and> calculateMACD [flatCandle ''t0'' 1] = Inl TypeError"
proof -
  have short: "length [flatCandle ''t0'' 1] < (12::nat)" by simp
  from short_input_results [OF short, of 2] show ?thesis by simp
qed

section \<open>Capped collections\<close>

lemma sorted_same_index: "(\<And>x. x \<in> set xs \<Longrightarrow> idx x = (b::nat)) \<Longrightarrow> sorted (map idx xs)"
  by (induction xs) auto

lemma concat_upt_sorted:
  fixes idx :: "'a \<Rightarrow> nat"
  assumes "\<And>i g. g \<in> set (f i) \<Longrightarrow> idx g = i"
  shows "sorted (map idx (concat (map f [a..<b])))"
proof (induction b)
  case 0
  then show ?case by simp
next
  case (Suc b)
  show ?case
  proof (cases "a \<le> b")
    case True
    have last: "sorted (map idx (f b))"
      by (rule sorted_same_index) (rule assms)
    have "idx x \<le> idx y" if "x \<in> set (concat (map f [a..<b]))" "y \<in> set (f b)" for x y
      using that by (auto dest!: assms)
    with Suc last True show ?thesis
      by (simp add: sorted_append)
  next
    case False
    then show ?thesis by simp
  qed
qed

lemma lastN_capped:
  fixes idx :: "'a \<Rightarrow> nat"
  assumes "sorted (map idx xs)"
  shows "cappedTo n idx xs (lastN n xs)"
proof -
  let ?d = "take (length xs - n) xs"
  have split: "xs = ?d @ lastN n xs"
    by (simp add: lastN_def)
  have len: "length (lastN n xs) \<le> n"
    by (simp add: lastN_def)
  have full: "?d \<noteq> [] \<longrightarrow> length (lastN n xs) = n"
    by (auto simp: lastN_def)
  from assms split have s: "sorted (map idx ?d @ map idx (lastN n xs))"
    by (metis map_append)
  then have "sorted (map idx (lastN n xs))"
    and "\<forall>g \<in> set ?d. \<forall>r \<in> set (lastN n xs). idx g \<le> idx r"
    by (auto simp: sorted_append)
  with split len full show ?thesis
    unfolding cappedTo_def by blast
qed

lemma gapsAt_index: "g \<in> set (gapsAt cfg data i) \<Longrightarrow> fvg_index g = i"
  by (auto simp: gapsAt_def Let_def split: if_splits)

lemma markFilled_index: "fvg_index (markFilled data g) = fvg_index g"
  by (simp add: markFilled_def)

lemma detectFairValueGaps_sorted: "sorted (map fvg_index (detectFairValueGaps cfg data))"
proof -
  have "map fvg_index (detectFairValueGaps cfg data)
        = map fvg_index (concat (map (gapsAt cfg data) [2 ..< length data - 1]))"
    by (simp add: detectFairValueGaps_def markFilled_index comp_def)
  then show ?thesis
    using concat_upt_sorted [of "gapsAt cfg data" fvg_index, OF gapsAt_index] by simp
qed

lemma blocksAt_index: "b \<in> set (blocksAt cfg data i) \<Longrightarrow> ob_index b = i"
  unfolding blocksAt_def Let_def
  by (cases "volumeOr1 (data ! i) > avgVolumeBefore data i * orderBlockMinVolume cfg")
     (auto split: if_splits)

lemma detectOrderBlocks_sorted: "sorted (map ob_index (detectOrderBlocks cfg data))"
  unfolding detectOrderBlocks_def
  using concat_upt_sorted [of "blocksAt cfg data" ob_index, OF blocksAt_index] by simp

lemma zonesAt_index: "z \<in> set (zonesAt data i) \<Longrightarrow> lz_index z = i"
  by (auto simp: zonesAt_def Let_def split: if_splits)

lemma detectLiquidityZones_sorted: "sorted (map lz_index (detectLiquidityZones data))"
  unfolding detectLiquidityZones_def
  using concat_upt_sorted [of "zonesAt data" lz_index, OF zonesAt_index] by simp

text \<open>
  C8. For every candle sequence the three returned collections are the detected ones
  capped to their most recent entries: at most 8 fair value gaps, 6 order blocks and 8
  liquidity zones, each the tail of the detected list in origin order, with the oldest
  entries dropped and none dropped unless the cap is reached.
\<close>

theorem collections_capped:
  "cappedTo 8 fvg_index (detectFairValueGaps cfg data) (identifyFairValueGaps cfg data)
   \<and> cappedTo 6 ob_index (detectOrderBlocks cfg data) (identifyOrderBlocks cfg data)
   \<and> cappedTo 8 lz_index (detectLiquidityZones data) (identifyLiquidityZones data)"
  unfolding identifyFairValueGaps_def identifyOrderBlocks_def identifyLiquidityZones_def
  by (intro conjI lastN_capped detectFairValueGaps_sorted detectOrderBlocks_sorted
      detectLiquidityZones_sorted)

text \<open>
  Ten gaps, seven blocks and ten zones are detected on the samples; the first two, one
  and two of them are dropped.
\<close>

lemma ramp_gaps:
  "map fvg_index (detectFairValueGaps defaultConfig rampData) = [2, 3, 4, 5, 6, 7, 8, 9, 10, 11]"
  "map fvg_index (identifyFairValueGaps defaultConfig rampData) = [4, 5, 6, 7, 8, 9, 10, 11]"
  by code_simp+

lemma ramp_blocks:
  "map ob_index (detectOrderBlocks defaultConfig rampData) = [3, 4, 5, 6, 7, 8, 9]"
  "map ob_index (identifyOrderBlocks defaultConfig rampData) = [4, 5, 6, 7, 8, 9]"
  by code_simp+

lemma spike_zones:
  "map lz_index (detectLiquidityZones spikeData) = [3, 3, 7, 7, 11, 11, 15, 15, 19, 19]"
  "map lz_index (identifyLiquidityZones spikeData) = [7, 7, 11, 11, 15, 15, 19, 19]"
  by code_simp+

theorem collections_capped_witness:
  "cappedTo 8 fvg_index (detectFairValueGaps defaultConfig rampData)
     (identifyFairValueGaps defaultConfig rampData)
   \<and> map fvg_index (detectFairValueGaps defaultConfig rampData) = [2, 3, 4, 5, 6, 7, 8, 9, 10, 11]
   \<and> map fvg_index (identifyFairValueGaps defaultConfig rampData) = [4, 5, 6, 7, 8, 9, 10, 11]
   \<and> cappedTo 6 ob_index (detectOrderBlocks defaultConfig rampData)
       (identifyOrderBlocks defaultConfig rampData)
   \<and> map ob_index (detectOrderBlocks defaultConfig rampData) = [3, 4, 5, 6, 7, 8, 9]
   \<and> map ob_index (identifyOrderBlocks defaultConfig rampData) = [4, 5, 6, 7, 8, 9]
   \<and> cappedTo 8 lz_index (detectLiquidityZones spikeData) (identifyLiquidityZones spikeData)
   \<and> map lz_index (detectLiquidityZones spikeData) = [3, 3, 7, 7, 11, 11, 15, 15, 19, 19]
   \<and> map lz_index (identifyLiquidityZones spikeData) = [7, 7, 11, 11, 15, 15, 19, 19]"
  using collections_capped [of defaultConfig rampData] collections_capped [of defaultConfig spikeData]
    ramp_gaps ramp_blocks spike_zones
  by blast

section \<open>Fill detection\<close>

lemma fillScan_cong:
  "fvg_type g' = fvg_type g \<Longrightarrow> fvg_low g' = fvg_low g \<Longrightarrow> fvg_high g' = fvg_high g
   \<Longrightarrow> fillScan g' cs = fillScan g cs"
  by (induction cs) auto

lemma fillScan_append: "fillScan g cs \<Longrightarrow> fillScan g (cs @ ds)"
  by (induction cs) (auto split: if_splits)

lemma gapsAt_unfilled: "g \<in> set (gapsAt cfg data i) \<Longrightarrow> \<not> filled g"
  by (auto simp: gapsAt_def Let_def split: if_splits)

lemma detect_member:
  assumes "g \<in> set (detectFairValueGaps cfg data)"
  shows "2 \<le> fvg_index g \<and> fvg_index g + 1 < length data
         \<and> filled g = fillScan g (drop (fvg_index g + 1) data)"
proof -
  from assms obtain i g0 where i: "2 \<le> i" "i < length data - 1"
    and g0: "g0 \<in> set (gapsAt cfg data i)" and g: "g = markFilled data g0"
    by (auto simp: detectFairValueGaps_def)
  from g0 have idx: "fvg_index g0 = i" and unf: "\<not> filled g0"
    by (simp_all add: gapsAt_index gapsAt_unfilled)
  have same: "fillScan g cs = fillScan g0 cs" for cs
    by (rule fillScan_cong) (simp_all add: g markFilled_def)
  from unf have "filled g = fillScan g0 (drop (fvg_index g0 + 1) data)"
    by (simp add: g markFilled_def)
  with i idx same show ?thesis
    by (simp add: g markFilled_index)
qed

lemma set_lastN: "set (lastN n xs) \<subseteq> set xs"
  by (simp add: lastN_def set_drop_subset)

text \<open>
  When no candle has its low above its high, the third candle of a gap fills it at once:
  every returned gap is filled, and the rules that look for an unfilled gap find none.
\<close>

lemma fillScan_own_candle:
  assumes "g \<in> set (gapsAt cfg data i)" and "low (data ! (i + 1)) \<le> high (data ! (i + 1))"
  shows "fillScan g (data ! (i + 1) # cs)"
  using assms by (auto simp: gapsAt_def Let_def split: if_splits)

lemma wellformed_gaps_filled:
  assumes wf: "\<And>c. c \<in> set data \<Longrightarrow> low c \<le> high c"
    and g: "g \<in> set (identifyFairValueGaps cfg data)"
  shows "filled g"
proof -
  from g have "g \<in> set (detectFairValueGaps cfg data)"
    using set_lastN [of 8 "detectFairValueGaps cfg data"] by (auto simp: identifyFairValueGaps_def)
  then obtain i g0 where i: "2 \<le> i" "i < length data - 1"
    and g0: "g0 \<in> set (gapsAt cfg data i)" and eq: "g = markFilled data g0"
    by (auto simp: detectFairValueGaps_def)
  from i have inside: "i + 1 < length data" by simp
  then have "low (data ! (i + 1)) \<le> high (data ! (i + 1))"
    by (intro wf nth_mem)
  with g0 have "fillScan g0 (data ! (i + 1) # drop (i + 2) data)"
    by (rule fillScan_own_candle)
  moreover from inside have "drop (i + 1) data = data ! (i + 1) # drop (i + 2) data"
    using Cons_nth_drop_Suc [of "i + 1" data] by simp
  moreover from g0 have "fvg_index g0 = i" by (rule gapsAt_index)
  ultimately show ?thesis by (simp add: eq markFilled_def)
qed

text \<open>
  C9. Let \<open>d\<close> be a candle sequence and \<open>d @ e\<close> the sequence with later candles appended.
  If a gap returned for \<open>d\<close> is filled, then the same gap returned for \<open>d @ e\<close> is filled
  as well. The same gap is one with the same origin index and bounds, and the same
  direction; on candles whose low is not above their high, the origin index and the
  bounds are enough.
\<close>

theorem fill_is_monotonic:
  assumes "g \<in> set (identifyFairValueGaps cfg d)" and "filled g"
    and "g' \<in> set (identifyFairValueGaps cfg (d @ e))"
    and "fvg_index g' = fvg_index g"
    and "fvg_high g' = fvg_high g" and "fvg_low g' = fvg_low g"
    and "fvg_type g' = fvg_type g \<or> (\<forall>c \<in> set (d @ e). low c \<le> high c)"
  shows "filled g'"
proof (cases "fvg_type g' = fvg_type g")
  case True
  from assms(1) have "g \<in> set (detectFairValueGaps cfg d)"
    using set_lastN [of 8 "detectFairValueGaps cfg d"] by (auto simp: identifyFairValueGaps_def)
  from detect_member [OF this] assms(2)
  have inside: "fvg_index g + 1 < length d"
    and scan: "fillScan g (drop (fvg_index g + 1) d)" by simp_all
  from assms(3) have "g' \<in> set (detectFairValueGaps cfg (d @ e))"
    using set_lastN [of 8 "detectFairValueGaps cfg (d @ e)"]
    by (auto simp: identifyFairValueGaps_def)
  from detect_member [OF this]
  have "filled g' = fillScan g' (drop (fvg_index g' + 1) (d @ e))" by simp
  also have "\<dots> = fillScan g (drop (fvg_index g' + 1) (d @ e))"
    using True assms(6) assms(5) by (rule fillScan_cong)
  also have "\<dots> = fillScan g (drop (fvg_index g + 1) d @ e)"
    using inside assms(4) by simp
  finally show ?thesis
    using scan by (simp add: fillScan_append)
next
  case False
  with assms(7) have "\<And>c. c \<in> set (d @ e) \<Longrightarrow> low c \<le> high c" by blast
  then show ?thesis using assms(3) by (rule wellformed_gaps_filled)
qed

lemma scenario_gaps:
  "identifyFairValueGaps defaultConfig gapAfterOne = [scenarioGap]"
  "identifyFairValueGaps defaultConfig (gapAfterOne @ [laterCandle]) = [scenarioGap]"
  by code_simp+

theorem fill_is_monotonic_witness:
  "scenarioGap \<in> set (identifyFairValueGaps defaultConfig gapAfterOne)
   \<and> filled scenarioGap
   \<and> scenarioGap \<in> set (identifyFairValueGaps defaultConfig
                           (gapAfterOne @ [laterCandle]))"
proof -
  have a: "scenarioGap \<in> set (identifyFairValueGaps defaultConfig gapAfterOne)"
    by (simp add: scenario_gaps)
  have b: "scenarioGap \<in> set (identifyFairValueGaps defaultConfig
                               (gapAfterOne @ [laterCandle]))"
    by (simp add: scenario_gaps)
  have c: "filled scenarioGap" by (simp add: scenarioGap_def)
  from fill_is_monotonic [OF a c b] a b show ?thesis by simp
qed

section \<open>The single-gap scenario\<close>

lemma short_no_gap: "length data \<le> 3 \<Longrightarrow> identifyFairValueGaps cfg data = []"
  by (simp add: identifyFairValueGaps_def detectFairValueGaps_def lastN_def)

text \<open>
  C2. On the three candles of the scenario (low of the first 1.1050, high of the third
  1.1020) \<open>identifyFairValueGaps\<close> returns no gap: its loop starts at index 2 and ends
  before the last index, so the triple of the candles 0, 1 and 2 is not scanned. After
  one earlier candle the same three candles give the bullish gap, with the bounds 1.1050
  and 1.1020 and the strength 0.0030 / 1.1055 * 10000; it is returned filled, although no
  candle follows it: the fill scan starts at the third candle of the gap itself.
\<close>

theorem single_gap_scenario:
  "identifyFairValueGaps defaultConfig gapScenario = []
   \<and> identifyFairValueGaps defaultConfig gapAfterOne = [scenarioGap]"
proof -
  have "identifyFairValueGaps defaultConfig gapScenario = []"
    by (rule short_no_gap) (simp add: gapScenario_def)
  moreover have "identifyFairValueGaps defaultConfig gapAfterOne = [scenarioGap]"
    by (rule scenario_gaps)
  ultimately show ?thesis by simp
qed

section \<open>MACD alignment\<close>

lemma length_emaLoop: "length (emaLoop m e cs) = length cs"
  by (induction cs arbitrary: e) (simp_all add: Let_def)

lemma emaLoop_timestamp:
  "j < length cs \<Longrightarrow> ti_timestamp (emaLoop m e cs ! j) = timestamp (cs ! j)"
proof (induction cs arbitrary: e j)
  case Nil
  then show ?case by simp
next
  case (Cons c cs)
  then show ?case by (cases j) (simp_all add: Let_def)
qed

lemma calculateEMA_defined:
  assumes "0 < period" "period \<le> length data"
  shows "\<exists>e. calculateEMA data period = Inr e
             \<and> length e = length data - period + 1
             \<and> (\<forall>j < length e. ti_timestamp (e ! j) = timestamp (data ! (j + period - 1)))"
proof -
  let ?m = "2 / (real period + 1)"
  let ?seed = "sumBy close (slice 0 period data) / real period"
  let ?e = "\<lparr>ti_timestamp = timestamp (data ! (period - 1)), ti_value = ?seed\<rparr>
            # emaLoop ?m ?seed (drop period data)"
  from assms have ne: "data \<noteq> []" by auto
  with assms have eq: "calculateEMA data period = Inr ?e"
    by (simp add: calculateEMA_def Let_def)
  have len: "length ?e = length data - period + 1"
    by (simp add: length_emaLoop)
  have ts: "ti_timestamp (?e ! j) = timestamp (data ! (j + period - 1))" if "j < length ?e" for j
  proof (cases j)
    case 0
    then show ?thesis by simp
  next
    case (Suc k)
    with that have k: "k < length (drop period data)" by (simp add: length_emaLoop)
    then have "ti_timestamp (emaLoop ?m ?seed (drop period data) ! k) = timestamp (drop period data ! k)"
      by (rule emaLoop_timestamp)
    also from k assms have "\<dots> = timestamp (data ! (period + k))" by simp
    finally show ?thesis using Suc assms by (simp add: add.commute)
  qed
  from eq len ts show ?thesis by blast
qed

lemma concat_map_if_singleton:
  "(\<And>x. x \<in> set xs \<Longrightarrow> c x) \<Longrightarrow> concat (map (\<lambda>x. if c x then [f x] else []) xs) = map f xs"
  by (induction xs) auto

lemma macdLineOf_aligned:
  assumes "length e12 = length e26 + 14"
  shows "macdLineOf e12 e26 =
           map (\<lambda>i. \<lparr>ti_timestamp = ti_timestamp (e26 ! i),
                      ti_value = ti_value (e12 ! (i + 11)) - ti_value (e26 ! i)\<rparr>)
               [14 ..< length e26]"
proof -
  have idx: "i + 12 - 1 = i + 11" for i :: nat by simp
  have start: "max 0 (26 - 12) = (14::nat)" by simp
  have stop: "min (length e12) (length e26) = length e26" using assms by simp
  have "i + 11 < length e12" if "i \<in> set [14 ..< length e26]" for i
    using that assms by simp
  then show ?thesis
    unfolding macdLineOf_def idx start stop by (rule concat_map_if_singleton)
qed

text \<open>
  C3. What \<open>calculateMACD\<close> pairs, for every sequence of at least 26 candles: the line has
  one point for each candle from index 39 on; the point of candle \<open>k + 39\<close> carries that
  candle's timestamp, which is the timestamp of the EMA26 point it reads, and its value is
  the EMA12 value of candle \<open>k + 36\<close> minus the EMA26 value of candle \<open>k + 39\<close>. The EMA12
  operand is three candles older than the EMA26 operand, and the first 14 points of the
  EMA26 series are skipped.
\<close>

theorem macd_alignment:
  assumes "26 \<le> length data"
  shows "\<exists>e12 e26 m.
           calculateEMA data 12 = Inr e12 \<and> calculateEMA data 26 = Inr e26
           \<and> calculateMACD data = Inr m
           \<and> length (macd m) = length data - 39
           \<and> (\<forall>k < length (macd m).
                 ti_timestamp (macd m ! k) = timestamp (data ! (k + 39))
                 \<and> ti_timestamp (e26 ! (k + 14)) = timestamp (data ! (k + 39))
                 \<and> ti_timestamp (e12 ! (k + 25)) = timestamp (data ! (k + 36))
                 \<and> ti_value (macd m ! k) = ti_value (e12 ! (k + 25)) - ti_value (e26 ! (k + 14)))"
proof -
  from assms obtain e12 where e12: "calculateEMA data 12 = Inr e12"
    and l12: "length e12 = length data - 12 + 1"
    and t12: "\<And>j. j < length e12 \<Longrightarrow> ti_timestamp (e12 ! j) = timestamp (data ! (j + 12 - 1))"
    using calculateEMA_defined [of 12 data] by auto
  from assms obtain e26 where e26: "calculateEMA data 26 = Inr e26"
    and l26: "length e26 = length data - 26 + 1"
    and t26: "\<And>j. j < length e26 \<Longrightarrow> ti_timestamp (e26 ! j) = timestamp (data ! (j + 26 - 1))"
    using calculateEMA_defined [of 26 data] by auto
  let ?line = "macdLineOf e12 e26"
  let ?m = "\<lparr>macd = ?line, signal = signalLineOf ?line,
             histogram = histogramOf ?line (signalLineOf ?line)\<rparr>"
  from e12 e26 have m: "calculateMACD data = Inr ?m"
    by (simp add: calculateMACD_def Let_def)
  from assms l12 l26 have "length e12 = length e26 + 14" by simp
  then have line: "?line = map (\<lambda>i. \<lparr>ti_timestamp = ti_timestamp (e26 ! i),
                      ti_value = ti_value (e12 ! (i + 11)) - ti_value (e26 ! i)\<rparr>)
               [14 ..< length e26]"
    by (rule macdLineOf_aligned)
  have "length ?line = length e26 - 14"
    by (simp only: line length_map length_upt)
  with l26 assms have len: "length ?line = length data - 39" by simp
  have pts: "ti_timestamp (?line ! k) = timestamp (data ! (k + 39))
             \<and> ti_timestamp (e26 ! (k + 14)) = timestamp (data ! (k + 39))
             \<and> ti_timestamp (e12 ! (k + 25)) = timestamp (data ! (k + 36))
             \<and> ti_value (?line ! k) = ti_value (e12 ! (k + 25)) - ti_value (e26 ! (k + 14))"
    if "k < length ?line" for k
  proof -
    from that len l26 l12 assms have k26: "k + 14 < length e26" and k12: "k + 25 < length e12"
      by simp_all
    from k26 have "[14 ..< length e26] ! k = 14 + k" by simp
    moreover from k26 have "k < length [14 ..< length e26]" by simp
    ultimately have "?line ! k = \<lparr>ti_timestamp = ti_timestamp (e26 ! (14 + k)),
                      ti_value = ti_value (e12 ! (14 + k + 11)) - ti_value (e26 ! (14 + k))\<rparr>"
      by (simp only: line nth_map)
    moreover have "14 + k = k + 14" "k + 14 + 11 = k + 25" by simp_all
    ultimately have pt: "?line ! k = \<lparr>ti_timestamp = ti_timestamp (e26 ! (k + 14)),
                      ti_value = ti_value (e12 ! (k + 25)) - ti_value (e26 ! (k + 14))\<rparr>"
      by (simp only:)
    have "k + 14 + 26 - 1 = k + 39" "k + 25 + 12 - 1 = k + 36" by simp_all
    with t26 [OF k26] t12 [OF k12]
    have a: "ti_timestamp (e26 ! (k + 14)) = timestamp (data ! (k + 39))"
      and b: "ti_timestamp (e12 ! (k + 25)) = timestamp (data ! (k + 36))"
      by (simp_all only:)
    from a b show ?thesis by (simp only: pt IndicatorPoint.simps simp_thms)
  qed
  from e12 e26 m len pts show ?thesis
    by (intro exI [of _ e12] exI [of _ e26] exI [of _ ?m]) simp
qed


lemma sumBy_replicate: "sumBy f (replicate n c) = real n * f c"
  by (simp add: sumBy_sum_list sum_list_replicate)

lemma emaLoop_flat_prefix:
  "close c = e \<Longrightarrow>
     emaLoop m e (replicate n c @ ys)
     = replicate n \<lparr>ti_timestamp = timestamp c, ti_value = e\<rparr> @ emaLoop m e ys"
  by (induction n) (simp_all add: Let_def)

lemma spike_ema12:
  "calculateEMA macdSpike 12 =
     Inr (replicate 25 \<lparr>ti_timestamp = ''a'', ti_value = 1\<rparr>
          @ [\<lparr>ti_timestamp = ''t36'', ti_value = 1\<rparr>, \<lparr>ti_timestamp = ''t37'', ti_value = 1\<rparr>,
             \<lparr>ti_timestamp = ''t38'', ti_value = 1\<rparr>, \<lparr>ti_timestamp = ''t39'', ti_value = 67 / 13\<rparr>])"
proof -
  have "replicate 25 \<lparr>ti_timestamp = ''a'', ti_value = (1::real)\<rparr>
        = \<lparr>ti_timestamp = ''a'', ti_value = 1\<rparr> # replicate 24 \<lparr>ti_timestamp = ''a'', ti_value = 1\<rparr>"
    by (simp add: numeral_eq_Suc)
  then show ?thesis
    by (simp add: calculateEMA_def macdSpike_def slice_def sumBy_replicate nth_append
        emaLoop_flat_prefix flatCandle_def Let_def)
qed

lemma spike_ema26:
  "calculateEMA macdSpike 26 =
     Inr (replicate 11 \<lparr>ti_timestamp = ''a'', ti_value = 1\<rparr>
          @ [\<lparr>ti_timestamp = ''t36'', ti_value = 1\<rparr>, \<lparr>ti_timestamp = ''t37'', ti_value = 1\<rparr>,
             \<lparr>ti_timestamp = ''t38'', ti_value = 1\<rparr>, \<lparr>ti_timestamp = ''t39'', ti_value = 3\<rparr>])"
proof -
  have "replicate 11 \<lparr>ti_timestamp = ''a'', ti_value = (1::real)\<rparr>
        = \<lparr>ti_timestamp = ''a'', ti_value = 1\<rparr> # replicate 10 \<lparr>ti_timestamp = ''a'', ti_value = 1\<rparr>"
    by (simp add: numeral_eq_Suc)
  then show ?thesis
    by (simp add: calculateEMA_def macdSpike_def slice_def sumBy_replicate nth_append
        emaLoop_flat_prefix flatCandle_def Let_def)
qed

lemma spike_macd:
  "calculateMACD macdSpike =
     Inr \<lparr>macd = [\<lparr>ti_timestamp = ''t39'', ti_value = - 2\<rparr>], signal = [], histogram = []\<rparr>"
proof -
  let ?e12 = "replicate 25 \<lparr>ti_timestamp = ''a'', ti_value = (1::real)\<rparr>
          @ [\<lparr>ti_timestamp = ''t36'', ti_value = 1\<rparr>, \<lparr>ti_timestamp = ''t37'', ti_value = 1\<rparr>,
             \<lparr>ti_timestamp = ''t38'', ti_value = 1\<rparr>, \<lparr>ti_timestamp = ''t39'', ti_value = 67 / 13\<rparr>]"
  let ?e26 = "replicate 11 \<lparr>ti_timestamp = ''a'', ti_value = (1::real)\<rparr>
          @ [\<lparr>ti_timestamp = ''t36'', ti_value = 1\<rparr>, \<lparr>ti_timestamp = ''t37'', ti_value = 1\<rparr>,
             \<lparr>ti_timestamp = ''t38'', ti_value = 1\<rparr>, \<lparr>ti_timestamp = ''t39'', ti_value = 3\<rparr>]"
  have "length ?e12 = length ?e26 + 14" by simp
  then have "macdLineOf ?e12 ?e26 =
           map (\<lambda>i. \<lparr>ti_timestamp = ti_timestamp (?e26 ! i),
                      ti_value = ti_value (?e12 ! (i + 11)) - ti_value (?e26 ! i)\<rparr>)
               [14 ..< length ?e26]"
    by (rule macdLineOf_aligned)
  also have "\<dots> = [\<lparr>ti_timestamp = ''t39'', ti_value = - 2\<rparr>]"
    by (simp add: upt_rec nth_append)
  finally have line: "macdLineOf ?e12 ?e26 = [\<lparr>ti_timestamp = ''t39'', ti_value = - 2\<rparr>]" .
  show ?thesis
    by (simp add: calculateMACD_def spike_ema12 spike_ema26 line signalLineOf_def histogramOf_def
        Let_def)
qed

text \<open>
  On the sample the EMA12 and the EMA26 of the last candle are 67/13 and 3; the MACD point
  of the last candle is \<open>1 - 3\<close>, with the EMA12 of candle 36.
\<close>

theorem macd_alignment_witness:
  "26 \<le> length macdSpike
   \<and> calculateEMA macdSpike 12 =
       Inr (replicate 25 \<lparr>ti_timestamp = ''a'', ti_value = 1\<rparr>
            @ [\<lparr>ti_timestamp = ''t36'', ti_value = 1\<rparr>, \<lparr>ti_timestamp = ''t37'', ti_value = 1\<rparr>,
               \<lparr>ti_timestamp = ''t38'', ti_value = 1\<rparr>,
               \<lparr>ti_timestamp = ''t39'', ti_value = 67 / 13\<rparr>])
   \<and> calculateEMA macdSpike 26 =
       Inr (replicate 11 \<lparr>ti_timestamp = ''a'', ti_value = 1\<rparr>
            @ [\<lparr>ti_timestamp = ''t36'', ti_value = 1\<rparr>, \<lparr>ti_timestamp = ''t37'', ti_value = 1\<rparr>,
               \<lparr>ti_timestamp = ''t38'', ti_value = 1\<rparr>,
               \<lparr>ti_timestamp = ''t39'', ti_value = 3\<rparr>])
   \<and> calculateMACD macdSpike =
       Inr \<lparr>macd = [\<lparr>ti_timestamp = ''t39'', ti_value = - 2\<rparr>], signal = [], histogram = []\<rparr>"
proof -
  have long: "26 \<le> length macdSpike" by (simp add: macdSpike_def)
  from macd_alignment [OF long] long spike_ema12 spike_ema26 spike_macd
  show ?thesis by blast
qed

section \<open>The flat market\<close>

lemma emaLoop_flat:
  "close c = e \<Longrightarrow>
     emaLoop m e (replicate n c) = replicate n \<lparr>ti_timestamp = timestamp c, ti_value = e\<rparr>"
  using emaLoop_flat_prefix [of c e m n "[]"] by simp

lemma calculateEMA_flat:
  assumes "0 < period" "period \<le> n"
  shows "calculateEMA (replicate n c) period
         = Inr (replicate (n - period + 1) \<lparr>ti_timestamp = timestamp c, ti_value = close c\<rparr>)"
proof -
  from assms have "sumBy close (slice 0 period (replicate n c)) / real period = close c"
    by (simp add: slice_def sumBy_replicate min_def)
  with assms show ?thesis
    by (simp add: calculateEMA_def Let_def emaLoop_flat)
qed

lemma map_constant: "(\<And>x. x \<in> set xs \<Longrightarrow> f x = k) \<Longrightarrow> map f xs = replicate (length xs) k"
  by (induction xs) simp_all

lemma calculateSMA_flat:
  assumes "0 < period" "period \<le> n"
  shows "calculateSMA (replicate n c) period
         = replicate (n - period + 1) \<lparr>ti_timestamp = timestamp c, ti_value = close c\<rparr>"
proof -
  have "\<lparr>ti_timestamp = timestamp (replicate n c ! i),
         ti_value = sumBy close (slice (i + 1 - period) (i + 1) (replicate n c)) / real period\<rparr>
        = \<lparr>ti_timestamp = timestamp c, ti_value = close c\<rparr>"
    if "i \<in> set [period - 1 ..< n]" for i
  proof -
    from that assms have i: "period - 1 \<le> i" "i < n" by simp_all
    with assms have "slice (i + 1 - period) (i + 1) (replicate n c) = replicate period c"
      by (simp add: slice_def min_def)
    with i assms show ?thesis by (simp add: sumBy_replicate)
  qed
  then have "calculateSMA (replicate n c) period
             = replicate (length [period - 1 ..< n]) \<lparr>ti_timestamp = timestamp c, ti_value = close c\<rparr>"
    unfolding calculateSMA_def length_replicate by (rule map_constant)
  with assms show ?thesis by (simp add: Suc_diff_le)
qed

lemma bandDeviation_flat:
  "bandDeviation (replicate n c) period \<lparr>ti_timestamp = t, ti_value = close c\<rparr> i = 0"
  by (simp add: bandDeviation_def Let_def slice_def sumBy_replicate)

lemma calculateBollingerBands_flat:
  assumes "0 < period" "period \<le> n"
  shows "calculateBollingerBands (replicate n c) period sd
         = \<lparr>upper = replicate (n - period + 1) \<lparr>ti_timestamp = timestamp c, ti_value = close c\<rparr>,
            middle = replicate (n - period + 1) \<lparr>ti_timestamp = timestamp c, ti_value = close c\<rparr>,
            lower = replicate (n - period + 1) \<lparr>ti_timestamp = timestamp c, ti_value = close c\<rparr>\<rparr>"
proof -
  define p where "p = \<lparr>ti_timestamp = timestamp c, ti_value = close c\<rparr>"
  define k where "k = n - period + 1"
  have sma: "calculateSMA (replicate n c) period = replicate k p"
    unfolding p_def k_def using assms by (rule calculateSMA_flat)
  have nth: "replicate k p ! i = p" if "i \<in> set [0 ..< k]" for i
    using that by simp
  have dev: "bandDeviation (replicate n c) period p i = 0" for i
    unfolding p_def by (rule bandDeviation_flat)
  have up: "map (\<lambda>i. \<lparr>ti_timestamp = ti_timestamp (replicate k p ! i),
                       ti_value = ti_value (replicate k p ! i)
                         + sd * bandDeviation (replicate n c) period (replicate k p ! i) i\<rparr>)
              [0 ..< k] = replicate (length [0 ..< k]) p"
    by (rule map_constant) (simp add: nth p_def bandDeviation_flat)
  have lo: "map (\<lambda>i. \<lparr>ti_timestamp = ti_timestamp (replicate k p ! i),
                       ti_value = ti_value (replicate k p ! i)
                         - sd * bandDeviation (replicate n c) period (replicate k p ! i) i\<rparr>)
              [0 ..< k] = replicate (length [0 ..< k]) p"
    by (rule map_constant) (simp add: nth p_def bandDeviation_flat)
  have mid: "map (\<lambda>i. replicate k p ! i) [0 ..< k] = replicate (length [0 ..< k]) p"
    by (rule map_constant) (rule nth)
  have "calculateBollingerBands (replicate n c) period sd
        = \<lparr>upper = replicate k p, middle = replicate k p, lower = replicate k p\<rparr>"
    unfolding calculateBollingerBands_def Let_def sma length_replicate up lo mid
    by simp
  then show ?thesis by (simp only: p_def k_def)
qed

lemma flat_rsi:
  "calculateRSI flat30 14 = replicate 16 \<lparr>ti_timestamp = ''t'', ti_value = 100 - 100 / 101\<rparr>"
  by code_simp

lemma flat_structure:
  "identifyFairValueGaps defaultConfig flat30 = []"
  "identifyOrderBlocks defaultConfig flat30 = []"
  "identifyLiquidityZones flat30 = []"
  "analyzeVolumeProfile flat30 = VolMedium"
  "analyzeMarketMicrostructure flat30 [] [] = Inr MicroNeutral"
  by code_simp+

lemma flat_macd: "calculateMACD flat30 = Inr \<lparr>macd = [], signal = [], histogram = []\<rparr>"
  by (simp add: calculateMACD_def flat30_def calculateEMA_flat macdLineOf_def signalLineOf_def
      histogramOf_def Let_def)

lemma flat_analysis: "analyzeAll flat30 = Inr flatAnalysis"
proof -
  have "calculateEMA flat30 12 = Inr (replicate 19 flatPoint)"
    "calculateEMA flat30 26 = Inr (replicate 5 flatPoint)"
    "calculateSMA flat30 20 = replicate 11 flatPoint"
    "calculateSMA flat30 50 = []"
    "calculateBollingerBands flat30 20 2
       = \<lparr>upper = replicate 11 flatPoint, middle = replicate 11 flatPoint,
          lower = replicate 11 flatPoint\<rparr>"
    by (simp_all add: flat30_def flatPoint_def flatCandle_def calculateEMA_flat calculateSMA_flat
        calculateBollingerBands_flat short_sma)
  then show ?thesis
    by (simp add: analyzeAll_def flat_macd flat_rsi flatAnalysis_def)
qed

lemma flat_latest:
  "latestValue (rsi flatAnalysis) = Some (100 - 100 / 101)"
  "latestValue (ema12 flatAnalysis) = Some (11 / 10)"
  "latestValue (ema26 flatAnalysis) = Some (11 / 10)"
  "latestValue (histogram (macdResult flatAnalysis)) = None"
  "previousValue (histogram (macdResult flatAnalysis)) = None"
  by (simp_all add: flatAnalysis_def flatPoint_def latestValue_def previousValue_def)

lemma flat_tally:
  "confluenceTally flatAnalysis (flatAdvanced s) (11 / 10) [] [] VolMedium MicroNeutral
   = \<lparr>bullish = 0, bearish = 4,
      reasons = [RSIOverbought (100 - 100 / 101),
                 if s then ActiveTradingSession else OutsideMajorSessions],
      confluenceScore = (if s then 5 else 3)\<rparr>"
  by (simp add: confluenceTally_def flat_latest truthy_def rsiConfluence_def macdConfluence_def
      emaConfluence_def fvgConfluence_def blockConfluence_def microConfluence_def
      volumeConfluence_def sessionConfluence_def addBearish_def addScore_def flatAdvanced_def)

lemma flat_confluence:
  "analyzeAdvancedConfluence flat30 flatAnalysis (flatAdvanced s) (11 / 10) [] [] []
     VolMedium MicroNeutral
   = \<lparr>bullish = 0, bearish = 4,
      reasons = [RSIOverbought (100 - 100 / 101),
                 if s then ActiveTradingSession else OutsideMajorSessions],
      confluenceScore = (if s then 5 else 3), confidence = 95\<rparr>"
  by (simp add: analyzeAdvancedConfluence_def flat_tally confidenceOf_def Let_def)

lemma flat_classified:
  "determineSmartMoneySignal defaultConfig
     \<lparr>bullish = 0, bearish = 4, reasons = rs, confluenceScore = (if s then 5 else 3),
      confidence = 95\<rparr> adv m
   = (if s then WEAK_SELL else HOLD)"
  by (simp add: determineSmartMoneySignal_def defaultConfig_def Let_def)

lemma flat_signal:
  "generateEnhancedSignal defaultConfig flat30 flatAnalysis (flatAdvanced s) =
     Inr \<lparr>es_signal = (if s then WEAK_SELL else HOLD),
          es_confidence = 95,
          es_timestamp = ''t'',
          es_price = 11 / 10,
          es_reasons = [RSIOverbought (100 - 100 / 101),
                        if s then ActiveTradingSession else OutsideMajorSessions],
          es_marketRegime = Ranging,
          es_sessionActive = s,
          es_confluenceScore = (if s then 5 else 3),
          es_fairValueGaps = [],
          es_orderBlocks = [],
          es_liquidityZones = [],
          es_volumeProfile = VolMedium,
          es_microstructure = MicroNeutral\<rparr>"
proof -
  have last: "close (last flat30) = 11 / 10" "timestamp (last flat30) = ''t''" "flat30 \<noteq> []"
    by (simp_all add: flat30_def flatCandle_def)
  have adv: "marketRegime (flatAdvanced s) = Ranging" "sessionFilter (flatAdvanced s) = s"
    by (simp_all add: flatAdvanced_def)
  show ?thesis
    unfolding generateEnhancedSignal_def Let_def flat_structure last
    by (simp add: flat_confluence flat_classified adv last)
qed

text \<open>
  C4, as the code has it. For thirty identical candles (open, high, low and close
  1.1000, volume 1000) the RSI series is not absent: \<open>calculateRSI\<close> takes the zero
  average loss path without throwing and returns 16 points, each \<open>100 - 100 / 101\<close>. The
  enhanced strategy then counts the RSI as overbought: bullish tally 0, bearish tally 4,
  confidence 95, and confluence score 5 in an active session or 3 outside the sessions;
  the signal is WEAK_SELL in an active session and HOLD outside the sessions.
\<close>

theorem flat_market_signal:
  "calculateRSI flat30 14 = replicate 16 \<lparr>ti_timestamp = ''t'', ti_value = 100 - 100 / 101\<rparr>
   \<and> analyzeAll flat30 = Inr flatAnalysis
   \<and> analyzeAdvancedConfluence flat30 flatAnalysis (flatAdvanced session) (11 / 10) [] [] []
         VolMedium MicroNeutral
       = \<lparr>bullish = 0, bearish = 4,
          reasons = [RSIOverbought (100 - 100 / 101),
                     if session then ActiveTradingSession else OutsideMajorSessions],
          confluenceScore = (if session then 5 else 3), confidence = 95\<rparr>
   \<and> generateEnhancedSignal defaultConfig flat30 flatAnalysis (flatAdvanced session) =
       Inr \<lparr>es_signal = (if session then WEAK_SELL else HOLD),
            es_confidence = 95,
            es_timestamp = ''t'',
            es_price = 11 / 10,
            es_reasons = [RSIOverbought (100 - 100 / 101),
                          if session then ActiveTradingSession else OutsideMajorSessions],
            es_marketRegime = Ranging,
            es_sessionActive = session,
            es_confluenceScore = (if session then 5 else 3),
            es_fairValueGaps = [],
            es_orderBlocks = [],
            es_liquidityZones = [],
            es_volumeProfile = VolMedium,
            es_microstructure = MicroNeutral\<rparr>"
  by (intro conjI flat_rsi flat_analysis flat_confluence flat_signal)

text \<open>
  The scenario as it is claimed (RSI absent, signal HOLD) fails on this input in an active
  session: the latest RSI value is defined and the signal is WEAK_SELL.
\<close>

theorem flat_market_counterexample:
  "analyzeAll flat30 = Inr flatAnalysis
   \<and> latestValue (calculateRSI flat30 14) = Some (100 - 100 / 101)
   \<and> map_sum id es_signal
         (generateEnhancedSignal defaultConfig flat30 flatAnalysis (flatAdvanced True))
       = Inr WEAK_SELL"
  by (simp add: flat_analysis flat_rsi flat_signal latestValue_def)

section \<open>Zero values of real series\<close>

text \<open>
  Both zeros arise from candles: the RSI is exactly 0 when every close of the window is
  lower than the one before, and the MACD histogram is exactly 0 on constant prices.
\<close>

lemma falling_rsi_zero:
  "calculateRSI falling30 14 = replicate 16 \<lparr>ti_timestamp = ''t'', ti_value = 0\<rparr>"
  by code_simp

lemma signalLoop_flat:
  "ti_value p = e \<Longrightarrow>
     signalLoop m e (replicate n p) = replicate n \<lparr>ti_timestamp = ti_timestamp p, ti_value = e\<rparr>"
  by (induction n) (simp_all add: Let_def)

lemma flat_tail_histogram:
  "calculateMACD flat50 =
     Inr \<lparr>macd = replicate 11 \<lparr>ti_timestamp = ''t'', ti_value = 0\<rparr>,
          signal = replicate 3 \<lparr>ti_timestamp = ''t'', ti_value = 0\<rparr>,
          histogram = replicate 3 \<lparr>ti_timestamp = ''t'', ti_value = 0\<rparr>\<rparr>"
proof -
  define p :: TechnicalIndicator where "p = \<lparr>ti_timestamp = ''t'', ti_value = 11 / 10\<rparr>"
  define z :: TechnicalIndicator where "z = \<lparr>ti_timestamp = ''t'', ti_value = 0\<rparr>"
  have e12: "calculateEMA flat50 12 = Inr (replicate 39 p)"
    and e26: "calculateEMA flat50 26 = Inr (replicate 25 p)"
    by (simp_all add: flat50_def p_def flatCandle_def calculateEMA_flat)
  have "length (replicate 39 p) = length (replicate 25 p) + 14" by simp
  then have "macdLineOf (replicate 39 p) (replicate 25 p) =
           map (\<lambda>i. \<lparr>ti_timestamp = ti_timestamp (replicate 25 p ! i),
                      ti_value = ti_value (replicate 39 p ! (i + 11)) - ti_value (replicate 25 p ! i)\<rparr>)
               [14 ..< length (replicate 25 p)]"
    by (rule macdLineOf_aligned)
  also have "\<dots> = replicate (length [14 ..< length (replicate 25 p)]) z"
    by (rule map_constant) (auto simp: p_def z_def)
  also have "length [14 ..< length (replicate 25 p)] = 11" by simp
  finally have line: "macdLineOf (replicate 39 p) (replicate 25 p) = replicate 11 z" .
  have sig: "signalLineOf (replicate 11 z) = replicate 3 z"
  proof -
    have "replicate 3 z = z # replicate 2 z" by (simp add: numeral_eq_Suc)
    then show ?thesis
      by (simp add: signalLineOf_def slice_def sumBy_replicate signalLoop_flat z_def)
  qed
  have hist: "histogramOf (replicate 11 z) (replicate 3 z) = replicate 3 z"
  proof -
    have m: "min (length (replicate 11 z)) (length (replicate 3 z)) = 3" by simp
    have "histogramOf (replicate 11 z) (replicate 3 z) = replicate (length [0 ..< 3]) z"
      unfolding histogramOf_def m by (rule map_constant) (auto simp: z_def)
    also have "length [0 ..< 3::nat] = 3" by simp
    finally show ?thesis .
  qed
  have "calculateMACD flat50 =
          Inr \<lparr>macd = replicate 11 z, signal = replicate 3 z, histogram = replicate 3 z\<rparr>"
    by (simp add: calculateMACD_def e12 e26 line sig hist Let_def)
  then show ?thesis by (simp only: z_def)
qed

end
